theory Spec2Isabelle
  imports Main
begin

section \<open>Strings as JavaScript uses them\<close>

text \<open>
  The server is written in TypeScript. Strings are \<^typ>\<open>string\<close>; a value that may be
  \<open>undefined\<close> or \<open>null\<close> is an \<^typ>\<open>'a option\<close>. A condition such as
  \<open>if (ssgCacheKey)\<close> or \<open>query.amp ? a : b\<close> tests JavaScript truthiness: a string is
  truthy when it is present and not empty.
\<close>

fun truthy :: "string option \<Rightarrow> bool" where
  "truthy None = False"
| "truthy (Some s) = (s \<noteq> [])"

fun startsWith :: "string \<Rightarrow> string \<Rightarrow> bool" where
  "startsWith s [] = True"
| "startsWith [] (p # ps) = False"
| "startsWith (c # cs) (p # ps) = (c = p \<and> startsWith cs ps)"

text \<open>\<open>s.indexOf(p)\<close>, with \<open>None\<close> for \<open>-1\<close>; \<open>s.includes(p)\<close> is \<open>indexOf s p \<noteq> None\<close>.\<close>

fun indexOf :: "string \<Rightarrow> string \<Rightarrow> nat option" where
  "indexOf [] p = (if p = [] then Some 0 else None)"
| "indexOf (c # cs) p =
     (if startsWith (c # cs) p then Some 0
      else (case indexOf cs p of None \<Rightarrow> None | Some i \<Rightarrow> Some (Suc i)))"

text \<open>\<open>s.replace(/suffix$/, '')\<close> for a literal suffix.\<close>

definition stripSuffix :: "string \<Rightarrow> string \<Rightarrow> string" where
  "stripSuffix suffix s =
     (if length suffix \<le> length s \<and> drop (length s - length suffix) s = suffix
      then take (length s - length suffix) s else s)"

text \<open>\<open>s.split('/')\<close> and \<open>segs.join('/')\<close>.\<close>

fun split_slash :: "string \<Rightarrow> string list" where
  "split_slash [] = [[]]"
| "split_slash (c # cs) =
     (if c = CHR ''/'' then [] # split_slash cs
      else (case split_slash cs of [] \<Rightarrow> [[c]] | seg # segs \<Rightarrow> (c # seg) # segs))"

fun join_slash :: "string list \<Rightarrow> string" where
  "join_slash [] = []"
| "join_slash [seg] = seg"
| "join_slash (seg # seg' # segs) = seg @ CHR ''/'' # join_slash (seg' # segs)"

text \<open>
  \<open>parseInt(s, 10)\<close> on a string of decimal digits: the value of the leading digits, and
  \<open>None\<close> for \<open>NaN\<close> when there is none. (Leading white space and a sign are not modelled:
  the only argument in this file is a page path without its leading slash.)
\<close>

definition digitVal :: "char \<Rightarrow> nat option" where
  "digitVal c =
     (let code = (of_char c :: nat)
      in if 48 \<le> code \<and> code \<le> 57 then Some (code - 48) else None)"

fun parseDigits :: "nat \<Rightarrow> string \<Rightarrow> nat" where
  "parseDigits acc [] = acc"
| "parseDigits acc (c # cs) =
     (case digitVal c of None \<Rightarrow> acc | Some d \<Rightarrow> parseDigits (10 * acc + d) cs)"

definition parseInt :: "string \<Rightarrow> nat option" where
  "parseInt s =
     (case s of [] \<Rightarrow> None
      | c # cs \<Rightarrow> (case digitVal c of None \<Rightarrow> None | Some d \<Rightarrow> Some (parseDigits d cs)))"

section \<open>Data model\<close>

text \<open>
  A query object maps keys to strings (\<open>ParsedUrlQuery\<close>; array values are not modelled),
  and so do the request headers.
\<close>

type_synonym query = "string \<rightharpoonup> string"

datatype json =
    JNull | JBool bool | JNum int | JStr string | JArr "json list" | JObj "(string \<times> json) list"

text \<open>\<open>RenderResult\<close>: static markup, or a stream of chunks produced by the renderer.\<close>

datatype RenderResult = fromStatic string | fromStream "string list"

text \<open>\<open>revalidate: number | false\<close>; \<open>undefined\<close> is \<open>None\<close> of the option around it.\<close>

datatype revalidate = Seconds nat | NoRevalidate

datatype ResponseCacheValue =
    PAGE RenderResult json
  | REDIRECT json
  | IMAGE

text \<open>
  \<open>ResponseCacheEntry\<close>. \<open>entry_value = None\<close> is the \<open>null\<close> value of a not-found
  result. The store adds \<open>isStale\<close> and \<open>isMiss\<close> to what it returns; the response
  generator leaves them unset (falsy).
\<close>

record ResponseCacheEntry =
  revalidate :: "revalidate option"
  entry_value :: "ResponseCacheValue option"
  isStale :: bool
  isMiss :: bool

datatype payload_type = html | json

record revalidate_options =
  opt_private :: bool
  opt_stateful :: bool
  opt_revalidate :: revalidate

record ResponsePayload =
  payload_type :: payload_type
  payload_body :: RenderResult
  revalidateOptions :: "revalidate_options option"

text \<open>
  Everything the code throws. \<open>Error msg\<close> is a plain \<open>new Error(msg)\<close>, which is also
  what a renderer or user code raises; \<open>ThrownNull\<close> is \<open>throw err\<close> with \<open>err = null\<close>.
\<close>

datatype error =
    NoFallbackError
  | DecodeError string
  | NormalizeError
  | MissingStaticPage
  | WrappedBuildError error
  | TypeError
  | Error string
  | ThrownNull

record request =
  url :: string
  http_method :: string
  headers :: "string \<rightharpoonup> string"
  nextRewroteUrl :: "string option"

record response =
  statusCode :: "nat option"
  resHeaders :: "string \<rightharpoonup> string list"
  resBody :: "string option"
  sent :: bool

text \<open>
  The parts of \<open>LoadComponentsReturnType\<close> the server inspects. \<open>Component\<close> is either the
  markup of an automatically static page (\<open>typeof Component === 'string'\<close>) or a component,
  of which only the presence of \<open>getInitialProps\<close> matters.
\<close>

datatype Component = StaticMarkup string | ReactComponent bool

record components =
  Component :: Component
  renderReqToHTML_present :: bool
  next_rsc :: bool
  getServerSideProps_present :: bool
  getStaticPaths_present :: bool
  getStaticProps_present :: bool
  Document_getInitialProps :: bool
  Document_builtin :: bool

record renderOpts =
  supportsDynamicHTML :: "bool option"
  params :: "(string \<times> string) list option"
  err :: "error option"

record RequestContext =
  ctx_pathname :: string
  ctx_query :: query
  ctx_renderOpts :: renderOpts

text \<open>
  What one render returns: \<open>renderHTML\<close> gives the body and leaves \<open>pageData\<close>,
  \<open>revalidate\<close>, \<open>isNotFound\<close> and \<open>isRedirect\<close> in its options argument; the serverless
  \<open>renderReqToHTML\<close> returns the same five values.
\<close>

record render_output =
  out_body :: "RenderResult option"
  out_pageData :: json
  out_revalidate :: "revalidate option"
  out_isNotFound :: bool
  out_isRedirect :: bool

text \<open>What \<open>doRender\<close> hands to the renderer besides the request.\<close>

record render_input =
  in_pathname :: string
  in_query :: query
  in_isDataReq :: bool
  in_locale :: "string option"
  in_resolvedUrl :: string
  in_resolvedAsPath :: string
  in_supportsDynamicHTML :: "bool option"

text \<open>
  The calls a run makes to its collaborators are recorded in order, those of an inner
  activation included, so that "the producer is never invoked" is a statement about the
  record.
\<close>

datatype event =
    CallRenderHTML render_input
  | CallRenderReqToHTML string
  | CallGetFallback string
  | CallRenderErrorToResponse string
  | CallSendRenderResult payload_type
  | CallHandleRedirect json
  | CallLogError error

text \<open>
  \<open>sharedQuery\<close> is the query object of the running activation as its closures share it
  during and after the cache lookup: the response generator writes to it and the code after
  the lookup reads it.
\<close>

record state =
  req :: request
  res :: response
  sharedQuery :: query
  calls :: "event list"

type_synonym 'a result = "(error + 'a) \<times> state"

datatype fallbackMode = FallbackStatic | FallbackBlocking | FallbackFalse

text \<open>The \<open>fallback\<close> field of a dynamic route in the prerender manifest: \<open>string | null | false\<close>.\<close>

datatype fallbackField = FieldString string | FieldNull | FieldFalse

section \<open>The server and its collaborators\<close>

text \<open>
  The fields of the abstract class \<open>Server\<close> that the render pipeline reads, the
  functions it imports from other modules, and its abstract methods. None of the latter two
  groups is defined in \<open>base-server.ts\<close>, so each is a field here; a theorem that holds for
  every server holds for every implementation of them.

  \<^item> \<open>i18n\<close> is \<open>nextConfig.i18n\<close>: the locales and the default locale.
  \<^item> \<open>webServerConfig\<close> is \<open>serverOptions.webServerConfig.page\<close>.
  \<^item> \<open>prerenderDynamicRoutes\<close> is \<open>getPrerenderManifest().dynamicRoutes[p].fallback\<close>.
  \<^item> \<open>getStaticPaths_override\<close> is the overriding \<open>getStaticPaths\<close> of a subclass (the
    development server), if there is one.
  \<^item> \<open>tryGetPreviewData\<close> tells whether the preview data is not \<open>false\<close>.
  \<^item> \<open>decodeURIComponent\<close> is \<open>None\<close> where the built-in throws.
  \<^item> \<open>responseCache_get\<close> is the store's \<open>get(key, responseGenerator, context)\<close>, the
    context being \<open>(isManualRevalidate, isPrefetch)\<close>.
\<close>

record server =
  minimalMode :: bool
  dev :: bool
  NEXT_RUNTIME_edge :: bool
  NEXT_REACT_ROOT :: bool
  webServerConfig :: "string option"
  serverComponentManifest :: bool
  i18n :: "(string list \<times> string) option"
  trailingSlash :: bool
  buildId :: string
  appPathRoutes :: "(string \<rightharpoonup> string list) option"
  STATIC_STATUS_PAGES :: "string list"
  prerenderDynamicRoutes :: "string \<rightharpoonup> fallbackField"
  getStaticPaths_override ::
    "(string \<Rightarrow> error + (string list option \<times> fallbackMode)) option"
  catchAllMiddleware :: bool
  dynamicRoutes :: "(string \<times> (string \<Rightarrow> (string \<times> string) list option)) list option"
  isBot :: "string \<Rightarrow> bool"
  isDynamicRoute :: "string \<Rightarrow> bool"
  parseUrl_pathname :: "string \<Rightarrow> string option"
  parseUrl_query :: "string \<Rightarrow> query"
  formatUrl :: "string \<Rightarrow> query \<Rightarrow> string"
  removeTrailingSlash :: "string \<Rightarrow> string"
  normalizeLocalePath :: "string \<Rightarrow> string list option \<Rightarrow> string"
  denormalizePagePath :: "string \<Rightarrow> string"
  decodeURIComponent :: "string \<Rightarrow> string option"
  escapePathDelimiters :: "string \<Rightarrow> bool \<Rightarrow> string"
  tryGetPreviewData :: "request \<Rightarrow> bool"
  checkIsManualRevalidate :: "request \<Rightarrow> bool \<times> bool"
  JSON_stringify :: "json \<Rightarrow> string"
  setRevalidateHeaders :: "revalidate_options \<Rightarrow> response \<Rightarrow> error + response"
  redirectResponse :: "json \<Rightarrow> response \<Rightarrow> error + response"
  getFallback :: "string \<Rightarrow> error + string"
  renderHTML :: "request \<Rightarrow> render_input \<Rightarrow> error + render_output"
  renderReqToHTML :: "request \<Rightarrow> string option \<Rightarrow> error + render_output"
  sendRenderResult :: "request \<Rightarrow> ResponsePayload \<Rightarrow> response \<Rightarrow> error + response"
  findPageComponents ::
    "string option \<Rightarrow> query \<Rightarrow> (string \<times> string) list \<Rightarrow> error + (components \<times> query) option"
  hasPage :: "string \<Rightarrow> bool"
  getFallbackErrorComponents :: "components option"
  getProperError :: "error \<Rightarrow> error"
  responseCache_get ::
    "string option \<Rightarrow> (bool \<Rightarrow> bool \<Rightarrow> state \<Rightarrow> ResponseCacheEntry option result)
      \<Rightarrow> bool \<times> bool \<Rightarrow> state \<Rightarrow> ResponseCacheEntry option result"

text \<open>
  The render pipeline re-enters itself: \<open>render404\<close> and \<open>renderError\<close>, called while a
  page is being rendered, run \<open>renderErrorToResponse\<close>, which renders a status page through
  \<open>renderToResponseWithComponents\<close> again. The inner activation is a parameter of the
  outer one.
\<close>

type_synonym reenter =
  "RequestContext \<Rightarrow> error option \<Rightarrow> state \<Rightarrow> ResponsePayload option result"

subsection \<open>Small accessors\<close>

text \<open>\<open>req.headers['user-agent'] || ''\<close>\<close>

definition userAgent :: "request \<Rightarrow> string" where
  "userAgent r = (case headers r ''user-agent'' of None \<Rightarrow> [] | Some u \<Rightarrow> u)"

definition setHeader :: "string \<Rightarrow> string list \<Rightarrow> state \<Rightarrow> state" where
  "setHeader name v s = s\<lparr>res := (res s)\<lparr>resHeaders := (resHeaders (res s))(name \<mapsto> v)\<rparr>\<rparr>"

definition setStatusCode :: "nat option \<Rightarrow> state \<Rightarrow> state" where
  "setStatusCode c s = s\<lparr>res := (res s)\<lparr>statusCode := c\<rparr>\<rparr>"

definition record_call :: "event \<Rightarrow> state \<Rightarrow> state" where
  "record_call e s = s\<lparr>calls := calls s @ [e]\<rparr>"

text \<open>\<open>throw err\<close> for \<open>err: Error | null\<close>.\<close>

definition thrown :: "error option \<Rightarrow> error" where
  "thrown e = (case e of None \<Rightarrow> ThrownNull | Some x \<Rightarrow> x)"

text \<open>
  The inner activation runs on the state of the outer one: the record notes the re-entry
  and then holds every call the inner activation makes. The query object the inner
  activation works on is the one \<open>findPageComponents\<close> returns for it, taken to be a
  fresh object, so the outer activation finds its own again afterwards.
\<close>

definition reentered :: "reenter \<Rightarrow> reenter" where
  "reentered R ctx e s =
     (case R ctx e (record_call (CallRenderErrorToResponse (ctx_pathname ctx)) s) of
        (r, s') \<Rightarrow> (r, s'\<lparr>sharedQuery := sharedQuery s\<rparr>))"

subsection \<open>\<open>pipe\<close>, \<open>renderError\<close>, \<open>render404\<close>\<close>

text \<open>The context that \<open>pipe\<close> hands to its function.\<close>

definition pipeContext :: "server \<Rightarrow> string \<Rightarrow> query \<Rightarrow> request \<Rightarrow> RequestContext" where
  "pipeContext srv pathname query r =
     \<lparr>ctx_pathname = pathname, ctx_query = query,
      ctx_renderOpts = \<lparr>supportsDynamicHTML = Some (\<not> isBot srv (userAgent r)),
                        params = None, err = None\<rparr>\<rparr>"

definition pipe ::
  "server \<Rightarrow> (RequestContext \<Rightarrow> state \<Rightarrow> ResponsePayload option result)
    \<Rightarrow> string \<Rightarrow> query \<Rightarrow> state \<Rightarrow> unit result" where
  "pipe srv fn pathname query s =
     (let ctx = pipeContext srv pathname query (req s)
      in case fn ctx s of
           (Inl e, s') \<Rightarrow> (Inl e, s')
         | (Inr None, s') \<Rightarrow> (Inr (), s')
         | (Inr (Some payload), s') \<Rightarrow>
             if \<not> sent (res s') then
               (let s'' = (if dev srv
                           then setHeader ''Cache-Control'' [''no-store, must-revalidate''] s'
                           else s');
                    s3 = record_call (CallSendRenderResult (payload_type payload)) s''
                in case sendRenderResult srv (req s3) payload (res s3) of
                     Inl e \<Rightarrow> (Inl e, s3)
                   | Inr r \<Rightarrow> (Inr (), s3\<lparr>res := r\<rparr>))
             else (Inr (), s'))"

definition renderError ::
  "server \<Rightarrow> reenter \<Rightarrow> error option \<Rightarrow> string \<Rightarrow> query \<Rightarrow> bool \<Rightarrow> state \<Rightarrow> unit result" where
  "renderError srv R e pathname query setHeaders s =
     (let s1 = (if setHeaders
                then setHeader ''Cache-Control''
                       [''no-cache, no-store, max-age=0, must-revalidate''] s
                else s)
      in pipe srv
           (\<lambda>ctx t. case reentered R ctx e t of
                       (Inl x, t') \<Rightarrow> (Inl x, t')
                     | (Inr response, t') \<Rightarrow>
                         if minimalMode srv \<and> statusCode (res t') = Some 500
                         then (Inl (thrown e), t')
                         else (Inr response, t'))
           pathname query s1)"

text \<open>
  \<open>render404\<close>: without a parsed URL the pathname and the query are those of \<open>req.url\<close>
  (a \<open>null\<close> pathname is handed on as the empty string); with \<open>i18n\<close> the locale and
  the default locale of the query default to the configured default locale. These two
  values are \<open>render404_target\<close>.
\<close>

definition render404_target ::
  "server \<Rightarrow> (string \<times> query) option \<Rightarrow> request \<Rightarrow> string \<times> query" where
  "render404_target srv parsedUrl r =
     (let (pathname, query) =
            (case parsedUrl of
               Some pq \<Rightarrow> pq
             | None \<Rightarrow> (case parseUrl_pathname srv (url r) of None \<Rightarrow> [] | Some p \<Rightarrow> p,
                        parseUrl_query srv (url r)));
          query' =
            (case i18n srv of
               None \<Rightarrow> query
             | Some (locales, defaultLocale) \<Rightarrow>
                 (let q1 = (if truthy (query ''__nextLocale'') then query
                            else query(''__nextLocale'' \<mapsto> defaultLocale))
                  in if truthy (q1 ''__nextDefaultLocale'') then q1
                     else q1(''__nextDefaultLocale'' \<mapsto> defaultLocale)))
      in (pathname, query'))"

definition render404 ::
  "server \<Rightarrow> reenter \<Rightarrow> (string \<times> query) option \<Rightarrow> bool \<Rightarrow> state \<Rightarrow> unit result" where
  "render404 srv R parsedUrl setHeaders s =
     (let (pathname, query') = render404_target srv parsedUrl (req s);
          s1 = setStatusCode (Some 404) s
      in renderError srv R None pathname query' setHeaders s1)"

section \<open>\<open>renderToResponseWithComponents\<close>\<close>

subsection \<open>The constants of one activation\<close>

text \<open>
  The local constants that the closures \<open>doRender\<close> and the response generator capture, and
  that the code after the cache lookup reads. \<open>query\<close> is the query object at the time the
  closure runs; \<open>opts_supportsDynamicHTML\<close> and \<open>opts_params\<close> are fields of the
  \<open>renderOpts\<close> of the context.
\<close>

record scope =
  pathname :: string
  query :: query
  comps :: components
  opts_supportsDynamicHTML :: "bool option"
  opts_params :: "(string \<times> string) list option"
  isDataReq :: bool
  isPreviewMode :: bool
  isManualRevalidate :: bool
  revalidateOnlyGenerated :: bool
  urlPathname :: string
  resolvedUrlPathname :: string
  ssgCacheKey :: "string option"

definition is404Page :: "string \<Rightarrow> bool" where
  "is404Page p = (p = ''/404'')"

definition is500Page :: "string \<Rightarrow> bool" where
  "is500Page p = (p = ''/500'')"

definition isLikeServerless :: "components \<Rightarrow> bool" where
  "isLikeServerless c = renderReqToHTML_present c"

definition hasServerProps :: "components \<Rightarrow> bool" where
  "hasServerProps c = getServerSideProps_present c"

definition hasStaticPaths :: "components \<Rightarrow> bool" where
  "hasStaticPaths c = getStaticPaths_present c"

definition hasGetInitialProps :: "components \<Rightarrow> bool" where
  "hasGetInitialProps c = (case Component c of StaticMarkup _ \<Rightarrow> False | ReactComponent g \<Rightarrow> g)"

definition isServerComponent :: "components \<Rightarrow> bool" where
  "isServerComponent c = next_rsc c"

definition isSSG :: "server \<Rightarrow> components \<Rightarrow> bool" where
  "isSSG srv c =
     (getStaticProps_present c \<or>
      (isServerComponent c \<and> \<not> hasServerProps c \<and> \<not> hasGetInitialProps c \<and>
       \<not> NEXT_RUNTIME_edge srv))"

text \<open>The local constant \<open>locale\<close>, which is \<open>query.__nextLocale\<close>.\<close>

definition localeOf :: "query \<Rightarrow> string option" where
  "localeOf q = q ''__nextLocale''"

text \<open>The prefix \<open>/locale\<close> of a truthy locale, and the suffix \<open>.amp\<close> of a truthy \<open>query.amp\<close>.\<close>

definition localePrefix :: "string option \<Rightarrow> string" where
  "localePrefix l = (case l of None \<Rightarrow> [] | Some x \<Rightarrow> if x = [] then [] else CHR ''/'' # x)"

definition ampSuffix :: "query \<Rightarrow> string" where
  "ampSuffix q = (if truthy (q ''amp'') then ''.amp'' else [])"

subsection \<open>The cache key\<close>

text \<open>
  The key as first computed: \<open>null\<close> to bypass the cache, else locale prefix, resolved path
  and AMP suffix; then the assignment for the status pages \<open>/404\<close> and \<open>/500\<close>.
\<close>

definition ssgCacheKey_initial ::
  "bool \<Rightarrow> bool \<Rightarrow> bool \<Rightarrow> bool \<Rightarrow> string \<Rightarrow> string \<Rightarrow> query \<Rightarrow> string option" where
  "ssgCacheKey_initial isPreview ssg dynamicHTML isFlightRequest p resolved q =
     (let key0 =
            (if isPreview \<or> \<not> ssg \<or> dynamicHTML \<or> isFlightRequest then None
             else Some (localePrefix (localeOf q) @
                        (if (p = ''/'' \<or> resolved = ''/'') \<and> truthy (localeOf q) then []
                         else resolved) @
                        ampSuffix q))
      in if (is404Page p \<or> is500Page p) \<and> ssg
         then Some (localePrefix (localeOf q) @ p @ ampSuffix q)
         else key0)"

text \<open>
  A truthy key is decoded and re-escaped segment by segment; a segment that does not decode
  raises \<open>DecodeError\<close>. Then \<open>/index\<close> for the page \<open>/\<close> becomes \<open>/\<close>.
\<close>

fun decodeSegments :: "server \<Rightarrow> string list \<Rightarrow> error + string list" where
  "decodeSegments srv [] = Inr []"
| "decodeSegments srv (seg # segs) =
     (case decodeURIComponent srv seg of
        None \<Rightarrow> Inl (DecodeError ''failed to decode param'')
      | Some d \<Rightarrow>
          (case decodeSegments srv segs of
             Inl e \<Rightarrow> Inl e
           | Inr ds \<Rightarrow> Inr (escapePathDelimiters srv d True # ds)))"

definition ssgCacheKey_normalized :: "server \<Rightarrow> string \<Rightarrow> string option \<Rightarrow> error + string option" where
  "ssgCacheKey_normalized srv p key =
     (case key of
        None \<Rightarrow> Inr None
      | Some k0 \<Rightarrow>
          if k0 = [] then Inr (Some k0)
          else
            (case decodeSegments srv (split_slash k0) of
               Inl e \<Rightarrow> Inl e
             | Inr segs \<Rightarrow>
                 (let k = join_slash segs
                  in Inr (Some (if k = ''/index'' \<and> p = ''/'' then ''/'' else k)))))"

subsection \<open>\<open>getStaticPaths\<close>\<close>

text \<open>
  The method of the base class reads the fallback of the page from the prerender manifest
  and leaves \<open>staticPaths\<close> undefined; a page that the manifest does not list makes the
  property access fail. A subclass may override the method.
\<close>

definition getStaticPaths :: "server \<Rightarrow> string \<Rightarrow> error + (string list option \<times> fallbackMode)" where
  "getStaticPaths srv p =
     (case getStaticPaths_override srv of
        Some f \<Rightarrow> f p
      | None \<Rightarrow>
          (case prerenderDynamicRoutes srv p of
             None \<Rightarrow> Inl TypeError
           | Some fallbackField \<Rightarrow>
               Inr (None,
                    case fallbackField of
                      FieldString _ \<Rightarrow> FallbackStatic
                    | FieldNull \<Rightarrow> FallbackBlocking
                    | FieldFalse \<Rightarrow> FallbackFalse)))"

subsection \<open>\<open>doRender\<close>\<close>

definition deleteKeys :: "string list \<Rightarrow> query \<Rightarrow> query" where
  "deleteKeys ks q = (\<lambda>k. if k \<in> set ks then None else q k)"

definition render_input_of :: "server \<Rightarrow> scope \<Rightarrow> request \<Rightarrow> render_input" where
  "render_input_of srv sc r =
     (let origQuery = deleteKeys (case opts_params sc of None \<Rightarrow> [] | Some ps \<Rightarrow> map fst ps)
                        (parseUrl_query srv (url r));
          hadTrailingSlash = (urlPathname sc \<noteq> ''/'' \<and> trailingSlash srv);
          resolvedUrl = formatUrl srv
                          (resolvedUrlPathname sc @ (if hadTrailingSlash then ''/'' else []))
                          origQuery
      in \<lparr>in_pathname = pathname sc, in_query = query sc, in_isDataReq = isDataReq sc,
          in_locale = localeOf (query sc), in_resolvedUrl = resolvedUrl,
          in_resolvedAsPath =
            (if hasServerProps (comps sc) \<or> hasGetInitialProps (comps sc)
             then formatUrl srv (urlPathname sc @ (if hadTrailingSlash then ''/'' else []))
                    origQuery
             else resolvedUrl),
          in_supportsDynamicHTML = opts_supportsDynamicHTML sc\<rparr>)"

definition doRender :: "server \<Rightarrow> scope \<Rightarrow> state \<Rightarrow> ResponseCacheEntry option result" where
  "doRender srv sc s =
     (let (rendered, s1) =
            (if isLikeServerless (comps sc)
             then (renderReqToHTML srv (req s) (localeOf (query sc)),
                   record_call (CallRenderReqToHTML (pathname sc)) s)
             else (renderHTML srv (req s) (render_input_of srv sc (req s)),
                   record_call (CallRenderHTML (render_input_of srv sc (req s))) s))
      in case rendered of
           Inl e \<Rightarrow> (Inl e, s1)
         | Inr out \<Rightarrow>
             if out_isNotFound out then
               (Inr (Some \<lparr>revalidate = out_revalidate out, entry_value = None,
                           isStale = False, isMiss = False\<rparr>), s1)
             else if out_isRedirect out then
               (Inr (Some \<lparr>revalidate = out_revalidate out,
                           entry_value = Some (REDIRECT (out_pageData out)),
                           isStale = False, isMiss = False\<rparr>), s1)
             else
               (case out_body out of
                  None \<Rightarrow> (Inr None, s1)
                | Some body \<Rightarrow>
                    (Inr (Some \<lparr>revalidate = out_revalidate out,
                                entry_value = Some (PAGE body (out_pageData out)),
                                isStale = False, isMiss = False\<rparr>), s1)))"

subsection \<open>The response generator\<close>

text \<open>
  The function handed to \<open>responseCache.get\<close>. The store calls it with \<open>hasResolved\<close>
  (a cached response has already been given out) and \<open>hadCache\<close> (the key had an entry).

  The variable \<open>fallbackMode\<close> is assigned up to three times: from \<open>getStaticPaths\<close>, for a
  bot, and for a manual revalidation.
\<close>

definition fallbackMode_bot :: "server \<Rightarrow> request \<Rightarrow> fallbackMode \<Rightarrow> fallbackMode" where
  "fallbackMode_bot srv r fm =
     (if fm = FallbackStatic \<and> isBot srv (userAgent r) then FallbackBlocking else fm)"

definition fallbackMode_manual :: "scope \<Rightarrow> bool \<Rightarrow> fallbackMode \<Rightarrow> fallbackMode" where
  "fallbackMode_manual sc hadCache fm =
     (if isManualRevalidate sc \<and> (fm \<noteq> FallbackFalse \<or> hadCache) then FallbackBlocking else fm)"

text \<open>The condition of the block that answers a miss without a full render.\<close>

definition fallbackBlock ::
  "server \<Rightarrow> scope \<Rightarrow> bool \<Rightarrow> string list option \<Rightarrow> fallbackMode \<Rightarrow> bool" where
  "fallbackBlock srv sc didRespond staticPaths fm =
     (\<not> minimalMode srv \<and> fm \<noteq> FallbackBlocking \<and> truthy (ssgCacheKey sc) \<and>
      \<not> didRespond \<and> \<not> isPreviewMode sc \<and> isDynamicRoute srv (pathname sc) \<and>
      (\<not> dev srv \<or>
       (case staticPaths of
          None \<Rightarrow> True
        | Some paths \<Rightarrow>
            (case ssgCacheKey sc of
               None \<Rightarrow> True
             | Some k \<Rightarrow>
                 (if truthy (query sc ''amp'') then stripSuffix ''.amp'' k else k) \<notin> set paths))))"

text \<open>Production: the fallback was emitted as static HTML at build time.\<close>

definition staticFallback :: "server \<Rightarrow> scope \<Rightarrow> state \<Rightarrow> ResponseCacheEntry option result" where
  "staticFallback srv sc s =
     (let page = (if truthy (localeOf (query sc))
                  then localePrefix (localeOf (query sc)) @ pathname sc
                  else pathname sc);
          s1 = record_call (CallGetFallback page) s
      in case getFallback srv page of
           Inl e \<Rightarrow> (Inl e, s1)
         | Inr markup \<Rightarrow>
             (Inr (Some \<lparr>revalidate = None,
                         entry_value = Some (PAGE (fromStatic markup) (JObj [])),
                         isStale = False, isMiss = False\<rparr>), s1))"

definition prepareServerlessUrl :: "server \<Rightarrow> query \<Rightarrow> request \<Rightarrow> request" where
  "prepareServerlessUrl srv q r =
     r\<lparr>url := formatUrl srv
                (case parseUrl_pathname srv (url r) of None \<Rightarrow> [] | Some p \<Rightarrow> p)
                (parseUrl_query srv (url r) ++ q)\<rparr>"

text \<open>
  Development: \<open>query.__nextFallback = 'true'\<close> is written to the shared query object, the
  fallback is rendered on demand, and its \<open>revalidate\<close> is deleted.
\<close>

definition onDemandFallback :: "server \<Rightarrow> scope \<Rightarrow> state \<Rightarrow> ResponseCacheEntry option result" where
  "onDemandFallback srv sc s =
     (let q = (query sc)(''__nextFallback'' \<mapsto> ''true'');
          s0 = s\<lparr>sharedQuery := q\<rparr>;
          s1 = (if isLikeServerless (comps sc)
                then s0\<lparr>req := prepareServerlessUrl srv q (req s0)\<rparr> else s0)
      in case doRender srv (sc\<lparr>query := q\<rparr>) s1 of
           (Inl e, s') \<Rightarrow> (Inl e, s')
         | (Inr None, s') \<Rightarrow> (Inr None, s')
         | (Inr (Some result), s') \<Rightarrow> (Inr (Some (result\<lparr>revalidate := None\<rparr>)), s'))"

text \<open>The full render, with the default for a missing \<open>revalidate\<close>.\<close>

definition renderWithRevalidate :: "server \<Rightarrow> scope \<Rightarrow> state \<Rightarrow> ResponseCacheEntry option result" where
  "renderWithRevalidate srv sc s =
     (case doRender srv sc s of
        (Inl e, s') \<Rightarrow> (Inl e, s')
      | (Inr None, s') \<Rightarrow> (Inr None, s')
      | (Inr (Some result), s') \<Rightarrow>
          (Inr (Some (result\<lparr>revalidate :=
                        (case revalidate result of
                           Some r \<Rightarrow> Some r
                         | None \<Rightarrow> Some (Seconds 1))\<rparr>)), s'))"

definition responseGenerator ::
  "server \<Rightarrow> reenter \<Rightarrow> scope \<Rightarrow> bool \<Rightarrow> bool \<Rightarrow> state \<Rightarrow> ResponseCacheEntry option result" where
  "responseGenerator srv R sc hasResolved hadCache s =
     (let isProduction = \<not> dev srv;
          didRespond = (hasResolved \<or> sent (res s))
      in case (if hasStaticPaths (comps sc) then getStaticPaths srv (pathname sc)
               else Inr (None, FallbackFalse)) of
           Inl e \<Rightarrow> (Inl e, s)
         | Inr (staticPaths, fallbackMode0) \<Rightarrow>
             (let fallbackMode1 = fallbackMode_bot srv (req s) fallbackMode0
              in if isManualRevalidate sc \<and> revalidateOnlyGenerated sc \<and> \<not> hadCache \<and>
                    \<not> minimalMode srv
                 then (case render404 srv R None True s of
                         (Inl e, s') \<Rightarrow> (Inl e, s')
                       | (Inr _, s') \<Rightarrow> (Inr None, s'))
                 else
                   (let fallbackMode = fallbackMode_manual sc hadCache fallbackMode1
                    in if fallbackBlock srv sc didRespond staticPaths fallbackMode then
                         (if (isProduction \<or> staticPaths \<noteq> None) \<and>
                             fallbackMode \<noteq> FallbackStatic
                          then (Inl NoFallbackError, s)
                          else if \<not> isDataReq sc then
                            (if isProduction then staticFallback srv sc s
                             else onDemandFallback srv sc s)
                          else renderWithRevalidate srv sc s)
                       else renderWithRevalidate srv sc s)))"

text \<open>
  The value of \<open>fallbackMode\<close> after all its assignments, the mode the block above tests.
\<close>

definition effectiveFallbackMode :: "server \<Rightarrow> scope \<Rightarrow> bool \<Rightarrow> request \<Rightarrow> error + fallbackMode" where
  "effectiveFallbackMode srv sc hadCache r =
     (case (if hasStaticPaths (comps sc) then getStaticPaths srv (pathname sc)
            else Inr (None, FallbackFalse)) of
        Inl e \<Rightarrow> Inl e
      | Inr (staticPaths, fallbackMode0) \<Rightarrow>
          Inr (fallbackMode_manual sc hadCache (fallbackMode_bot srv r fallbackMode0)))"

subsection \<open>Before the cache lookup\<close>

definition isDataReq_of :: "server \<Rightarrow> components \<Rightarrow> query \<Rightarrow> request \<Rightarrow> bool" where
  "isDataReq_of srv c q r =
     ((truthy (q ''__nextDataReq'') \<or>
       (truthy (headers r ''x-nextjs-data'') \<and> webServerConfig srv \<noteq> None)) \<and>
      (isSSG srv c \<or> hasServerProps c \<or> isServerComponent c))"

definition isFlightRequest :: "server \<Rightarrow> query \<Rightarrow> bool" where
  "isFlightRequest srv q = (serverComponentManifest srv \<and> truthy (q ''__flight__''))"

definition stripNextDataPath :: "server \<Rightarrow> string \<Rightarrow> string" where
  "stripNextDataPath srv path =
     (let path1 =
            (case indexOf path (buildId srv) of
               None \<Rightarrow> path
             | Some i \<Rightarrow>
                 denormalizePagePath srv
                   (stripSuffix ''.json'' (drop (i + length (buildId srv)) path)))
      in case i18n srv of
           None \<Rightarrow> path1
         | Some (locales, defaultLocale) \<Rightarrow> normalizeLocalePath srv path1 (Some locales))"

text \<open>
  The effects on the request and the response before the method check: the URL of a data
  request in minimal mode, the matched-path header, and the status of a status page.
\<close>

definition preamble :: "server \<Rightarrow> string \<Rightarrow> components \<Rightarrow> query \<Rightarrow> bool \<Rightarrow> state \<Rightarrow> state" where
  "preamble srv p c q dataReq s =
     (let s1 = (if isSSG srv c \<and> minimalMode srv \<and>
                   truthy (headers (req s) ''x-matched-path'') \<and>
                   startsWith (url (req s)) ''/_next/data''
                then s\<lparr>req := (req s)\<lparr>url := stripNextDataPath srv (url (req s))\<rparr>\<rparr>
                else s);
          s2 = (if \<not> isServerComponent c \<and> truthy (headers (req s1) ''x-nextjs-data'') \<and>
                   (statusCode (res s1) = None \<or> statusCode (res s1) = Some 0 \<or>
                    statusCode (res s1) = Some 200)
                then setHeader ''x-nextjs-matched-path'' [localePrefix (localeOf q) @ p] s1
                else s1);
          s3 = (if is404Page p \<and> \<not> dataReq \<and> \<not> isFlightRequest srv q
                then setStatusCode (Some 404) s2 else s2)
      in if p \<in> set (STATIC_STATUS_PAGES srv) then setStatusCode (parseInt (drop 1 p)) s3
         else s3)"

text \<open>Static pages answer \<open>GET\<close> and \<open>HEAD\<close> only.\<close>

definition methodNotAllowed :: "server \<Rightarrow> string \<Rightarrow> components \<Rightarrow> request \<Rightarrow> bool" where
  "methodNotAllowed srv p c r =
     (\<not> is404Page p \<and> \<not> is500Page p \<and> p \<noteq> ''/_error'' \<and>
      http_method r \<noteq> ''HEAD'' \<and> http_method r \<noteq> ''GET'' \<and>
      ((case Component c of StaticMarkup _ \<Rightarrow> True | ReactComponent _ \<Rightarrow> False) \<or> isSSG srv c))"

definition supportsDynamicHTML_of ::
  "server \<Rightarrow> components \<Rightarrow> query \<Rightarrow> request \<Rightarrow> bool option \<Rightarrow> bool option" where
  "supportsDynamicHTML_of srv c q r opt =
     (if opt = Some True then
        (let isBotRequest = isBot srv (userAgent r);
             isSupportedDocument =
               (\<not> Document_getInitialProps c \<or> (NEXT_REACT_ROOT srv \<and> Document_builtin c))
         in Some (\<not> isSSG srv c \<and> \<not> isLikeServerless c \<and> \<not> isBotRequest \<and>
                  \<not> truthy (q ''amp'') \<and> isSupportedDocument))
      else opt)"

definition isPreviewMode_of :: "server \<Rightarrow> components \<Rightarrow> request \<Rightarrow> bool" where
  "isPreviewMode_of srv c r =
     ((hasServerProps c \<or> isSSG srv c) \<and> \<not> NEXT_RUNTIME_edge srv \<and> tryGetPreviewData srv r)"

text \<open>
  The constants of the activation, from the query after \<open>delete query.__nextDataReq\<close>.
  Computing the cache key can raise \<open>DecodeError\<close>.
\<close>

definition buildScope ::
  "server \<Rightarrow> string \<Rightarrow> components \<Rightarrow> query \<Rightarrow> renderOpts \<Rightarrow> bool \<Rightarrow> request \<Rightarrow> error + scope" where
  "buildScope srv p c q1 opts dataReq r =
     (let q = (if truthy (q1 ''amp'') then q1 else q1(''amp'' := None));
          dynamicHTML = supportsDynamicHTML_of srv c q r (supportsDynamicHTML opts);
          preview = isPreviewMode_of srv c r;
          (manual, onlyGenerated) =
            (if isSSG srv c then checkIsManualRevalidate srv r else (False, False));
          urlPathname0 = (case parseUrl_pathname srv (url r) of
                            None \<Rightarrow> ''/''
                          | Some u \<Rightarrow> if u = [] then ''/'' else u);
          resolved0 = (case nextRewroteUrl r of
                         None \<Rightarrow> urlPathname0
                       | Some w \<Rightarrow> if w = [] then urlPathname0 else w);
          resolved1 = (if isSSG srv c \<and> minimalMode srv \<and> truthy (headers r ''x-matched-path'')
                       then urlPathname0 else resolved0);
          urlPathname1 = removeTrailingSlash srv urlPathname0;
          resolved2 = normalizeLocalePath srv (removeTrailingSlash srv resolved1)
                        (map_option fst (i18n srv));
          resolved = (if dataReq then stripNextDataPath srv resolved2 else resolved2);
          urlPathname' = (if dataReq then stripNextDataPath srv urlPathname1 else urlPathname1);
          key0 = ssgCacheKey_initial preview (isSSG srv c) (dynamicHTML = Some True)
                   (isFlightRequest srv q) p resolved q
      in case ssgCacheKey_normalized srv p key0 of
           Inl e \<Rightarrow> Inl e
         | Inr key \<Rightarrow>
             Inr \<lparr>pathname = p, query = q, comps = c,
                  opts_supportsDynamicHTML = dynamicHTML, opts_params = params opts,
                  isDataReq = dataReq, isPreviewMode = preview,
                  isManualRevalidate = manual, revalidateOnlyGenerated = onlyGenerated,
                  urlPathname = urlPathname', resolvedUrlPathname = resolved,
                  ssgCacheKey = key\<rparr>)"

subsection \<open>After the cache lookup\<close>

definition notFoundBody :: string where
  \<open>notFoundBody = ''{"notFound":true}''\<close>

definition cacheHeader :: "scope \<Rightarrow> ResponseCacheEntry \<Rightarrow> string" where
  "cacheHeader sc entry =
     (if isManualRevalidate sc then ''REVALIDATED''
      else if isMiss entry then ''MISS''
      else if isStale entry then ''STALE''
      else ''HIT'')"

definition revalidateOptions_of ::
  "server \<Rightarrow> scope \<Rightarrow> ResponseCacheEntry \<Rightarrow> revalidate_options option" where
  "revalidateOptions_of srv sc entry =
     (case revalidate entry of
        None \<Rightarrow> None
      | Some r \<Rightarrow>
          if \<not> dev srv \<or> (hasServerProps (comps sc) \<and> \<not> isDataReq sc)
          then Some \<lparr>opt_private = (isPreviewMode sc \<or>
                                     (is404Page (pathname sc) \<and> entry_value entry \<noteq> None)),
                     opt_stateful = (\<not> isSSG srv (comps sc)),
                     opt_revalidate = r\<rparr>
          else None)"

text \<open>
  \<open>if (revalidateOptions) setRevalidateHeaders(res, revalidateOptions)\<close>; the imported
  function can throw (it refuses a duration below 1).
\<close>

definition applyRevalidateHeaders :: "server \<Rightarrow> revalidate_options option \<Rightarrow> state \<Rightarrow> unit result" where
  "applyRevalidateHeaders srv ro s =
     (case ro of
        None \<Rightarrow> (Inr (), s)
      | Some o' \<Rightarrow>
          (case setRevalidateHeaders srv o' (res s) of
             Inl e \<Rightarrow> (Inl e, s)
           | Inr r \<Rightarrow> (Inr (), s\<lparr>res := r\<rparr>)))"

text \<open>
  The closure \<open>handleRedirect\<close> computes the destination from the redirect props and sends
  the redirect through the response object; what that does to the response is the field
  \<open>redirectResponse\<close>.
\<close>

definition handleRedirect :: "server \<Rightarrow> json \<Rightarrow> state \<Rightarrow> unit result" where
  "handleRedirect srv pageData s =
     (let s1 = record_call (CallHandleRedirect pageData) s
      in case redirectResponse srv pageData (res s1) of
           Inl e \<Rightarrow> (Inl e, s1)
         | Inr r \<Rightarrow> (Inr (), s1\<lparr>res := r\<rparr>))"

text \<open>
  From \<open>if (!cacheEntry)\<close> to the end of the function: what is made of the entry the store
  returned.
\<close>

definition respond ::
  "server \<Rightarrow> reenter \<Rightarrow> scope \<Rightarrow> ResponseCacheEntry option \<Rightarrow> state
    \<Rightarrow> ResponsePayload option result" where
  "respond srv R sc cacheEntry s =
     (case cacheEntry of
        None \<Rightarrow>
          if truthy (ssgCacheKey sc) \<and>
             \<not> (isManualRevalidate sc \<and> revalidateOnlyGenerated sc)
          then (Inl (Error ''invariant: cache entry required but not generated''), s)
          else (Inr None, s)
      | Some entry \<Rightarrow>
          (let s1 = (if isSSG srv (comps sc) \<and> \<not> minimalMode srv
                     then setHeader ''x-nextjs-cache'' [cacheHeader sc entry] s else s);
               ro = revalidateOptions_of srv sc entry
           in case entry_value entry of
                None \<Rightarrow>
                  (case applyRevalidateHeaders srv ro s1 of
                     (Inl e, s2) \<Rightarrow> (Inl e, s2)
                   | (Inr _, s2) \<Rightarrow>
                       if isDataReq sc then
                         (Inr None,
                          s2\<lparr>res := (res s2)\<lparr>statusCode := Some 404,
                                              resBody := Some notFoundBody, sent := True\<rparr>\<rparr>)
                       else
                         (let q = (if dev srv
                                   then (sharedQuery s2)(''__nextNotFoundSrcPage'' \<mapsto> pathname sc)
                                   else sharedQuery s2);
                              s3 = s2\<lparr>sharedQuery := q\<rparr>
                          in case render404 srv R (Some (pathname sc, q)) False s3 of
                               (Inl e, s') \<Rightarrow> (Inl e, s')
                             | (Inr _, s') \<Rightarrow> (Inr None, s')))
              | Some (REDIRECT props) \<Rightarrow>
                  (case applyRevalidateHeaders srv ro s1 of
                     (Inl e, s2) \<Rightarrow> (Inl e, s2)
                   | (Inr _, s2) \<Rightarrow>
                       if isDataReq sc then
                         (Inr (Some \<lparr>payload_type = json,
                                     payload_body = fromStatic (JSON_stringify srv props),
                                     revalidateOptions = ro\<rparr>), s2)
                       else
                         (case handleRedirect srv props s2 of
                            (Inl e, s') \<Rightarrow> (Inl e, s')
                          | (Inr _, s') \<Rightarrow> (Inr None, s')))
              | Some IMAGE \<Rightarrow>
                  (Inl (Error ''invariant SSG should not return an image cache value''), s1)
              | Some (PAGE markup pageData) \<Rightarrow>
                  (Inr (Some \<lparr>payload_type = (if isDataReq sc then json else html),
                              payload_body =
                                (if isDataReq sc
                                 then fromStatic (JSON_stringify srv pageData)
                                 else markup),
                              revalidateOptions = ro\<rparr>), s1)))"

subsection \<open>The whole function\<close>

text \<open>
  The store is given the state in which the query object is the one the closures were
  created over, \<open>query\<close> of the scope: from here on the response generator may write to
  it.
\<close>

definition renderToResponseWithComponents ::
  "server \<Rightarrow> reenter \<Rightarrow> RequestContext \<Rightarrow> components \<times> query \<Rightarrow> state
    \<Rightarrow> ResponsePayload option result" where
  "renderToResponseWithComponents srv R ctx found s =
     (let (c, q0) = found;
          p = ctx_pathname ctx;
          dataReq = isDataReq_of srv c q0 (req s);
          q1 = q0(''__nextDataReq'' := None);
          s1 = preamble srv p c q1 dataReq s
      in if methodNotAllowed srv p c (req s1) then
           (case renderError srv R None p Map.empty True
                   (setHeader ''Allow'' [''GET'', ''HEAD''] (setStatusCode (Some 405) s1)) of
              (Inl e, s') \<Rightarrow> (Inl e, s')
            | (Inr _, s') \<Rightarrow> (Inr None, s'))
         else
           (case Component c of
              StaticMarkup markup \<Rightarrow>
                (Inr (Some \<lparr>payload_type = html, payload_body = fromStatic markup,
                            revalidateOptions = None\<rparr>), s1)
            | ReactComponent _ \<Rightarrow>
                (case buildScope srv p c q1 (ctx_renderOpts ctx) dataReq (req s1) of
                   Inl e \<Rightarrow> (Inl e, s1)
                 | Inr sc \<Rightarrow>
                     (case responseCache_get srv (ssgCacheKey sc) (responseGenerator srv R sc)
                             (isManualRevalidate sc,
                              headers (req s1) ''purpose'' = Some ''prefetch'')
                             (s1\<lparr>sharedQuery := query sc\<rparr>) of
                        (Inl e, s') \<Rightarrow> (Inl e, s')
                      | (Inr cacheEntry, s') \<Rightarrow> respond srv R sc cacheEntry s'))))"

text \<open>
  Two names for what the function has computed when it reaches the cache lookup: the state
  after the preamble and the scope.
\<close>

definition stateAfterPreamble :: "server \<Rightarrow> RequestContext \<Rightarrow> components \<times> query \<Rightarrow> state \<Rightarrow> state" where
  "stateAfterPreamble srv ctx found s =
     preamble srv (ctx_pathname ctx) (fst found) ((snd found)(''__nextDataReq'' := None))
       (isDataReq_of srv (fst found) (snd found) (req s)) s"

definition scopeForLookup ::
  "server \<Rightarrow> RequestContext \<Rightarrow> components \<times> query \<Rightarrow> state \<Rightarrow> error + scope" where
  "scopeForLookup srv ctx found s =
     buildScope srv (ctx_pathname ctx) (fst found) ((snd found)(''__nextDataReq'' := None))
       (ctx_renderOpts ctx) (isDataReq_of srv (fst found) (snd found) (req s))
       (req (stateAfterPreamble srv ctx found s))"

section \<open>The dispatcher\<close>

subsection \<open>\<open>renderErrorToResponse\<close>\<close>

text \<open>The decimal digits of a status code, for \<open>`/${res.statusCode}`\<close>.\<close>

definition digitChar :: "nat \<Rightarrow> char" where
  "digitChar d = ''0123456789'' ! (d mod 10)"

fun showNat :: "nat \<Rightarrow> string" where
  "showNat n = (if n < 10 then [digitChar n] else showNat (n div 10) @ [digitChar n])"

declare showNat.simps [simp del]

definition statusPage_of :: "response \<Rightarrow> string" where
  "statusPage_of r =
     CHR ''/'' # (case statusCode r of None \<Rightarrow> ''undefined'' | Some n \<Rightarrow> showNat n)"

definition isWrappedBuildError :: "error \<Rightarrow> bool" where
  "isWrappedBuildError e = (case e of WrappedBuildError _ \<Rightarrow> True | _ \<Rightarrow> False)"

definition innerError :: "error \<Rightarrow> error" where
  "innerError e = (case e of WrappedBuildError i \<Rightarrow> i | _ \<Rightarrow> e)"

text \<open>
  The inner \<open>try\<close> of \<open>renderErrorToResponse\<close>: choose the components of \<open>/404\<close>, of the
  status page or of \<open>/_error\<close>, and render them. A missing \<open>/_error\<close> makes the
  destructuring of \<open>result!\<close> fail.
\<close>

definition renderErrorToResponse_try ::
  "server \<Rightarrow> reenter \<Rightarrow> RequestContext \<Rightarrow> error option \<Rightarrow> state \<Rightarrow> ResponsePayload option result" where
  "renderErrorToResponse_try srv R ctx e s =
     (let q = ctx_query ctx;
          is404 = (statusCode (res s) = Some 404)
      in case (if is404 \<and> hasPage srv ''/404'' then findPageComponents srv (Some ''/404'') q []
               else Inr None) of
           Inl x \<Rightarrow> (Inl x, s)
         | Inr result0 \<Rightarrow>
             (let statusPage0 = statusPage_of (res s)
              in case (if \<not> truthy (q ''__nextCustomErrorRender'') \<and> result0 = None \<and>
                          statusPage0 \<in> set (STATIC_STATUS_PAGES srv) \<and>
                          (statusPage0 \<noteq> ''/500'' \<or> \<not> dev srv)
                       then findPageComponents srv (Some statusPage0) q []
                       else Inr result0) of
                   Inl x \<Rightarrow> (Inl x, s)
                 | Inr result1 \<Rightarrow>
                     (case (if result1 = None
                            then (case findPageComponents srv (Some ''/_error'') q [] of
                                    Inl x \<Rightarrow> Inl x
                                  | Inr r \<Rightarrow> Inr (r, ''/_error''))
                            else Inr (result1, statusPage0)) of
                        Inl x \<Rightarrow> (Inl x, s)
                      | Inr (None, statusPage) \<Rightarrow> (Inl TypeError, s)
                      | Inr (Some found, statusPage) \<Rightarrow>
                          (case renderToResponseWithComponents srv R
                                  (ctx\<lparr>ctx_pathname := statusPage,
                                       ctx_renderOpts := (ctx_renderOpts ctx)\<lparr>err := e\<rparr>\<rparr>)
                                  found s of
                             (Inl x, s') \<Rightarrow>
                               (if x = NoFallbackError
                                then (Inl (Error ''invariant: failed to render error page''), s')
                                else (Inl x, s'))
                           | (Inr r, s') \<Rightarrow> (Inr r, s')))))"

definition renderErrorToResponse ::
  "server \<Rightarrow> reenter \<Rightarrow> RequestContext \<Rightarrow> error option \<Rightarrow> state \<Rightarrow> ResponsePayload option result" where
  "renderErrorToResponse srv R ctx e s =
     (case renderErrorToResponse_try srv R ctx e s of
        (Inr r, s') \<Rightarrow> (Inr r, s')
      | (Inl x, s') \<Rightarrow>
          (let renderToHtmlError = getProperError srv x;
               isWrappedError = isWrappedBuildError renderToHtmlError;
               s1 = (if \<not> isWrappedError then record_call (CallLogError renderToHtmlError) s'
                     else s');
               s2 = setStatusCode (Some 500) s1
           in case getFallbackErrorComponents srv of
                Some fallbackComponents \<Rightarrow>
                  renderToResponseWithComponents srv R
                    (ctx\<lparr>ctx_pathname := ''/_error'',
                         ctx_renderOpts :=
                           (ctx_renderOpts ctx)\<lparr>err := Some (innerError renderToHtmlError)\<rparr>\<rparr>)
                    (fallbackComponents, ctx_query ctx) s2
              | None \<Rightarrow>
                  (Inr (Some \<lparr>payload_type = html,
                              payload_body = fromStatic ''Internal Server Error'',
                              revalidateOptions = None\<rparr>), s2)))"

subsection \<open>\<open>renderPageComponent\<close>\<close>

definition getOriginalAppPaths :: "server \<Rightarrow> string \<Rightarrow> string list option" where
  "getOriginalAppPaths srv route =
     (case appPathRoutes srv of None \<Rightarrow> None | Some routes \<Rightarrow> routes route)"

text \<open>
  The result \<open>false\<close> ("this candidate does not serve the path") is \<open>None\<close>; a payload or
  \<open>null\<close> is \<open>Some\<close> of the result of \<open>renderToResponseWithComponents\<close>.
\<close>

definition renderPageComponent ::
  "server \<Rightarrow> reenter \<Rightarrow> RequestContext \<Rightarrow> bool \<Rightarrow> state
    \<Rightarrow> ResponsePayload option option result" where
  "renderPageComponent srv R ctx bubbleNoFallback s =
     (let appPaths = getOriginalAppPaths srv (ctx_pathname ctx);
          page = (case appPaths of
                    None \<Rightarrow> Some (ctx_pathname ctx)
                  | Some [] \<Rightarrow> None
                  | Some (a # _) \<Rightarrow> Some a)
      in case findPageComponents srv page (ctx_query ctx)
                (case params (ctx_renderOpts ctx) of None \<Rightarrow> [] | Some ps \<Rightarrow> ps) of
           Inl e \<Rightarrow> (Inl e, s)
         | Inr None \<Rightarrow> (Inr None, s)
         | Inr (Some found) \<Rightarrow>
             (case renderToResponseWithComponents srv R ctx found s of
                (Inl e, s') \<Rightarrow>
                  (if e \<noteq> NoFallbackError \<or> bubbleNoFallback then (Inl e, s')
                   else (Inr None, s'))
              | (Inr r, s') \<Rightarrow> (Inr (Some r), s')))"

subsection \<open>\<open>renderToResponse\<close>\<close>

text \<open>The loop over the dynamic routes: the first candidate with a result ends it.\<close>

fun tryDynamicRoutes ::
  "server \<Rightarrow> reenter \<Rightarrow> RequestContext \<Rightarrow> bool
    \<Rightarrow> (string \<times> (string \<Rightarrow> (string \<times> string) list option)) list \<Rightarrow> state
    \<Rightarrow> ResponsePayload option option result" where
  "tryDynamicRoutes srv R ctx bubbleNoFallback [] s = (Inr None, s)"
| "tryDynamicRoutes srv R ctx bubbleNoFallback ((page, match) # routes) s =
     (case match (ctx_pathname ctx) of
        None \<Rightarrow> tryDynamicRoutes srv R ctx bubbleNoFallback routes s
      | Some ps \<Rightarrow>
          (case renderPageComponent srv R
                  (ctx\<lparr>ctx_pathname := page,
                       ctx_renderOpts := (ctx_renderOpts ctx)\<lparr>params := Some ps\<rparr>\<rparr>)
                  bubbleNoFallback s of
             (Inl e, s') \<Rightarrow> (Inl e, s')
           | (Inr (Some r), s') \<Rightarrow> (Inr (Some r), s')
           | (Inr None, s') \<Rightarrow> tryDynamicRoutes srv R ctx bubbleNoFallback routes s'))"

text \<open>
  The body of the \<open>try\<close>: the page itself unless its name is a dynamic route, then the
  dynamic routes in order, then the page of the web server configuration. \<open>None\<close> means
  that every candidate is exhausted.
\<close>

definition tryCandidates ::
  "server \<Rightarrow> reenter \<Rightarrow> RequestContext \<Rightarrow> bool \<Rightarrow> state \<Rightarrow> ResponsePayload option option result" where
  "tryCandidates srv R ctx bubbleNoFallback s =
     (case (if \<not> isDynamicRoute srv (ctx_pathname ctx)
            then renderPageComponent srv R ctx bubbleNoFallback s else (Inr None, s)) of
        (Inl e, s') \<Rightarrow> (Inl e, s')
      | (Inr (Some r), s') \<Rightarrow> (Inr (Some r), s')
      | (Inr None, s1) \<Rightarrow>
          (case tryDynamicRoutes srv R ctx bubbleNoFallback
                  (case dynamicRoutes srv of None \<Rightarrow> [] | Some routes \<Rightarrow> routes) s1 of
             (Inl e, s') \<Rightarrow> (Inl e, s')
           | (Inr (Some r), s') \<Rightarrow> (Inr (Some r), s')
           | (Inr None, s2) \<Rightarrow>
               (case webServerConfig srv of
                  None \<Rightarrow> (Inr None, s2)
                | Some page \<Rightarrow>
                    renderPageComponent srv R (ctx\<lparr>ctx_pathname := page\<rparr>)
                      bubbleNoFallback s2)))"

text \<open>The \<open>catch\<close> of \<open>renderToResponse\<close>.\<close>

definition renderToResponse_catch ::
  "server \<Rightarrow> reenter \<Rightarrow> RequestContext \<Rightarrow> bool \<Rightarrow> error \<Rightarrow> state \<Rightarrow> ResponsePayload option result" where
  "renderToResponse_catch srv R ctx bubbleNoFallback error s =
     (let e = getProperError srv error
      in if error = MissingStaticPage then (Inl e, s)
         else if e = NoFallbackError \<and> bubbleNoFallback then (Inl e, s)
         else if (case e of DecodeError _ \<Rightarrow> True | NormalizeError \<Rightarrow> True | _ \<Rightarrow> False)
         then renderErrorToResponse srv R ctx (Some e) (setStatusCode (Some 400) s)
         else
           (case (if hasPage srv ''/500''
                  then (case renderErrorToResponse srv R
                               (ctx\<lparr>ctx_query := (ctx_query ctx)(''__nextCustomErrorRender'' \<mapsto> ''1'')\<rparr>)
                               (Some e) (setStatusCode (Some 500) s) of
                          (Inl x, s') \<Rightarrow> (Inl x, s')
                        | (Inr _, s') \<Rightarrow> (Inr (), s'))
                  else (Inr (), setStatusCode (Some 500) s)) of
              (Inl x, s') \<Rightarrow> (Inl x, s')
            | (Inr _, s1) \<Rightarrow>
                (let ctx' = ctx\<lparr>ctx_query := (ctx_query ctx)(''__nextCustomErrorRender'' := None)\<rparr>;
                     ctx1 = (if hasPage srv ''/500'' then ctx' else ctx);
                     isWrappedError = isWrappedBuildError e
                 in if \<not> isWrappedError \<and>
                       ((minimalMode srv \<and> \<not> NEXT_RUNTIME_edge srv) \<or> dev srv)
                    then (Inl e, s1)
                    else renderErrorToResponse srv R ctx1 (Some (innerError e))
                           (if \<not> isWrappedError then record_call (CallLogError e) s1 else s1))))"

definition renderToResponse ::
  "server \<Rightarrow> reenter \<Rightarrow> RequestContext \<Rightarrow> state \<Rightarrow> ResponsePayload option result" where
  "renderToResponse srv R ctx0 s =
     (let bubbleNoFallback = truthy (ctx_query ctx0 ''_nextBubbleNoFallback'');
          ctx = ctx0\<lparr>ctx_query := (ctx_query ctx0)(''_nextBubbleNoFallback'' := None)\<rparr>
      in case tryCandidates srv R ctx bubbleNoFallback s of
           (Inl e, s') \<Rightarrow> renderToResponse_catch srv R ctx bubbleNoFallback e s'
         | (Inr (Some r), s') \<Rightarrow> (Inr r, s')
         | (Inr None, s') \<Rightarrow>
             if catchAllMiddleware srv \<and> truthy (headers (req s') ''x-nextjs-data'') \<and>
                (statusCode (res s') = None \<or> statusCode (res s') = Some 0 \<or>
                 statusCode (res s') = Some 200 \<or> statusCode (res s') = Some 404)
             then
               (let s1 = setHeader ''x-nextjs-matched-path''
                           [localePrefix (localeOf (ctx_query ctx)) @ ctx_pathname ctx] s';
                    s2 = setHeader ''content-type'' [''application/json'']
                           (setStatusCode (Some 200) s1)
                in (Inr None, s2\<lparr>res := (res s2)\<lparr>resBody := Some ''{}'', sent := True\<rparr>\<rparr>))
             else renderErrorToResponse srv R ctx None (setStatusCode (Some 404) s'))"

section \<open>Which way the response generator goes\<close>

text \<open>
  The response generator ends in one of six ways. \<open>generatorPath\<close> names the way it takes,
  from the same tests in the same order; the lemmas \<open>responseGenerator_PathNotFound\<close> to
  \<open>responseGenerator_PathStaticPathsError\<close> below prove that it does, one for each way.
\<close>

datatype generator_path =
    PathStaticPathsError
  | PathNotFound
  | PathNoFallback
  | PathStaticFallback
  | PathOnDemandFallback
  | PathRender

definition generatorPath :: "server \<Rightarrow> scope \<Rightarrow> bool \<Rightarrow> bool \<Rightarrow> state \<Rightarrow> generator_path" where
  "generatorPath srv sc hasResolved hadCache s =
     (case (if hasStaticPaths (comps sc) then getStaticPaths srv (pathname sc)
            else Inr (None, FallbackFalse)) of
        Inl e \<Rightarrow> PathStaticPathsError
      | Inr (staticPaths, fallbackMode0) \<Rightarrow>
          if isManualRevalidate sc \<and> revalidateOnlyGenerated sc \<and> \<not> hadCache \<and>
             \<not> minimalMode srv
          then PathNotFound
          else
            (let fallbackMode =
                   fallbackMode_manual sc hadCache (fallbackMode_bot srv (req s) fallbackMode0)
             in if fallbackBlock srv sc (hasResolved \<or> sent (res s)) staticPaths fallbackMode
                then
                  (if (\<not> dev srv \<or> staticPaths \<noteq> None) \<and> fallbackMode \<noteq> FallbackStatic
                   then PathNoFallback
                   else if \<not> isDataReq sc
                   then (if \<not> dev srv then PathStaticFallback else PathOnDemandFallback)
                   else PathRender)
                else PathRender))"

text \<open>The calls by which \<open>doRender\<close> runs the renderer.\<close>

fun isProducerCall :: "event \<Rightarrow> bool" where
  "isProducerCall (CallRenderHTML _) = True"
| "isProducerCall (CallRenderReqToHTML _) = True"
| "isProducerCall _ = False"

section \<open>A small deployment for concrete runs\<close>

text \<open>
  A store that holds nothing: every lookup is a miss, so the generator runs before the
  response is built, with \<open>hasResolved\<close> and \<open>hadCache\<close> false, and its entry comes back
  marked as a miss.
\<close>

definition emptyStore ::
  "string option \<Rightarrow> (bool \<Rightarrow> bool \<Rightarrow> state \<Rightarrow> ResponseCacheEntry option result)
    \<Rightarrow> bool \<times> bool \<Rightarrow> state \<Rightarrow> ResponseCacheEntry option result" where
  "emptyStore key responseGenerator' context s =
     (case responseGenerator' False False s of
        (Inl e, s') \<Rightarrow> (Inl e, s')
      | (Inr None, s') \<Rightarrow> (Inr None, s')
      | (Inr (Some entry), s') \<Rightarrow> (Inr (Some (entry\<lparr>isMiss := True\<rparr>)), s'))"

text \<open>
  A production server with two dynamic pages: \<open>/blog/[slug]\<close> with \<open>fallback: false\<close> and
  \<open>/posts/[id]\<close> with a fallback page. The renderer returns a fixed page without
  \<open>revalidate\<close>.
\<close>

definition demoOutput :: render_output where
  "demoOutput = \<lparr>out_body = Some (fromStatic ''<p>page</p>''), out_pageData = JObj [],
                 out_revalidate = None, out_isNotFound = False, out_isRedirect = False\<rparr>"

definition ssgPage :: components where
  "ssgPage = \<lparr>Component = ReactComponent False, renderReqToHTML_present = False,
              next_rsc = False, getServerSideProps_present = False,
              getStaticPaths_present = True, getStaticProps_present = True,
              Document_getInitialProps = False, Document_builtin = True\<rparr>"

definition errorPage :: components where
  "errorPage = \<lparr>Component = ReactComponent True, renderReqToHTML_present = False,
                next_rsc = False, getServerSideProps_present = False,
                getStaticPaths_present = False, getStaticProps_present = False,
                Document_getInitialProps = False, Document_builtin = True\<rparr>"

definition demoServer :: server where
  "demoServer =
     \<lparr>minimalMode = False, dev = False, NEXT_RUNTIME_edge = False, NEXT_REACT_ROOT = False,
      webServerConfig = None, serverComponentManifest = False, i18n = None,
      trailingSlash = False, buildId = ''build'', appPathRoutes = None,
      STATIC_STATUS_PAGES = [''/500''],
      prerenderDynamicRoutes =
        [''/blog/[slug]'' \<mapsto> FieldFalse, ''/posts/[id]'' \<mapsto> FieldString ''/posts/[id].html''],
      getStaticPaths_override = None, catchAllMiddleware = False,
      dynamicRoutes =
        Some [(''/blog/[slug]'',
               \<lambda>p. if startsWith p ''/blog/'' then Some [(''slug'', drop 6 p)] else None)],
      isBot = (\<lambda>ua. ua = ''Googlebot''),
      isDynamicRoute = (\<lambda>p. CHR ''['' \<in> set p),
      parseUrl_pathname = (\<lambda>u. Some u),
      parseUrl_query = (\<lambda>u. Map.empty),
      formatUrl = (\<lambda>p q. p),
      removeTrailingSlash = (\<lambda>p. p),
      normalizeLocalePath = (\<lambda>p locales. p),
      denormalizePagePath = (\<lambda>p. p),
      decodeURIComponent = Some,
      escapePathDelimiters = (\<lambda>seg escapeEncoded. seg),
      tryGetPreviewData = (\<lambda>r. headers r ''cookie'' = Some ''__next_preview_data''),
      checkIsManualRevalidate =
        (\<lambda>r. (headers r ''x-prerender-revalidate'' \<noteq> None,
              headers r ''x-prerender-revalidate-if-generated'' \<noteq> None)),
      JSON_stringify = (\<lambda>j. if j = JObj [] then ''{}'' else ''null''),
      setRevalidateHeaders = (\<lambda>ro r. Inr r),
      redirectResponse = (\<lambda>props r. Inr r),
      getFallback = (\<lambda>page. Inr ''<p>loading</p>''),
      renderHTML = (\<lambda>r input. Inr demoOutput),
      renderReqToHTML = (\<lambda>r l. Inr demoOutput),
      sendRenderResult = (\<lambda>r payload re. Inr (re\<lparr>sent := True\<rparr>)),
      findPageComponents =
        (\<lambda>page q ps.
           if page = Some ''/blog/[slug]'' \<or> page = Some ''/posts/[id]'' \<or> page = Some ''/404''
           then Inr (Some (ssgPage, q))
           else if page = Some ''/_error'' then Inr (Some (errorPage, q))
           else Inr None),
      hasPage = (\<lambda>page. False),
      getFallbackErrorComponents = None,
      getProperError = (\<lambda>e. if e = ThrownNull then Error ''null'' else e),
      responseCache_get = emptyStore\<rparr>"

text \<open>An inner activation that renders nothing and leaves the state as it is.\<close>

definition noReenter :: reenter where
  "noReenter ctx e s = (Inr None, s)"

definition demoRequest :: "string \<Rightarrow> (string \<times> string) list \<Rightarrow> request" where
  "demoRequest u hs =
     \<lparr>url = u, http_method = ''GET'', headers = map_of hs, nextRewroteUrl = None\<rparr>"

definition demoState :: "request \<Rightarrow> state" where
  "demoState r =
     \<lparr>req = r,
      res = \<lparr>statusCode = None, resHeaders = Map.empty, resBody = None, sent = False\<rparr>,
      sharedQuery = Map.empty, calls = []\<rparr>"

definition demoOpts :: renderOpts where
  "demoOpts = \<lparr>supportsDynamicHTML = Some False, params = None, err = None\<rparr>"

definition demoScope :: "string \<Rightarrow> string \<Rightarrow> scope" where
  "demoScope p u =
     \<lparr>pathname = p, query = Map.empty, comps = ssgPage,
      opts_supportsDynamicHTML = Some False, opts_params = None,
      isDataReq = False, isPreviewMode = False,
      isManualRevalidate = False, revalidateOnlyGenerated = False,
      urlPathname = u, resolvedUrlPathname = u, ssgCacheKey = Some u\<rparr>"

section \<open>Facts about the strings and the example deployment\<close>



lemma demoServer_simps:
  "minimalMode demoServer = False"
  "dev demoServer = False"
  "NEXT_RUNTIME_edge demoServer = False"
  "NEXT_REACT_ROOT demoServer = False"
  "webServerConfig demoServer = None"
  "serverComponentManifest demoServer = False"
  "i18n demoServer = None"
  "trailingSlash demoServer = False"
  "buildId demoServer = ''build''"
  "appPathRoutes demoServer = None"
  "STATIC_STATUS_PAGES demoServer = [''/500'']"
  "prerenderDynamicRoutes demoServer =
     [''/blog/[slug]'' \<mapsto> FieldFalse, ''/posts/[id]'' \<mapsto> FieldString ''/posts/[id].html'']"
  "getStaticPaths_override demoServer = None"
  "catchAllMiddleware demoServer = False"
  "dynamicRoutes demoServer =
     Some [(''/blog/[slug]'',
            \<lambda>p. if startsWith p ''/blog/'' then Some [(''slug'', drop 6 p)] else None)]"
  "isBot demoServer ua = (ua = ''Googlebot'')"
  "isDynamicRoute demoServer pa = (CHR ''['' \<in> set pa)"
  "parseUrl_pathname demoServer u = Some u"
  "parseUrl_query demoServer u = Map.empty"
  "formatUrl demoServer pa q = pa"
  "removeTrailingSlash demoServer pa = pa"
  "normalizeLocalePath demoServer pa ls = pa"
  "denormalizePagePath demoServer pa = pa"
  "decodeURIComponent demoServer seg = Some seg"
  "escapePathDelimiters demoServer seg b = seg"
  "tryGetPreviewData demoServer r = (headers r ''cookie'' = Some ''__next_preview_data'')"
  "checkIsManualRevalidate demoServer r =
     (headers r ''x-prerender-revalidate'' \<noteq> None,
      headers r ''x-prerender-revalidate-if-generated'' \<noteq> None)"
  "JSON_stringify demoServer j = (if j = JObj [] then ''{}'' else ''null'')"
  "setRevalidateHeaders demoServer ro re = Inr re"
  "redirectResponse demoServer j re = Inr re"
  "getFallback demoServer pa = Inr ''<p>loading</p>''"
  "renderHTML demoServer r input = Inr demoOutput"
  "renderReqToHTML demoServer r l = Inr demoOutput"
  "sendRenderResult demoServer r payload re = Inr (re\<lparr>sent := True\<rparr>)"
  "findPageComponents demoServer page q ps =
     (if page = Some ''/blog/[slug]'' \<or> page = Some ''/posts/[id]'' \<or> page = Some ''/404''
      then Inr (Some (ssgPage, q))
      else if page = Some ''/_error'' then Inr (Some (errorPage, q))
      else Inr None)"
  "hasPage demoServer pa = False"
  "getFallbackErrorComponents demoServer = None"
  "getProperError demoServer e = (if e = ThrownNull then Error ''null'' else e)"
  "responseCache_get demoServer = emptyStore"
  by (simp_all add: demoServer_def)

text \<open>The definitions to unfold when a concrete run is evaluated.\<close>

lemmas demo_defs =
  demoScope_def ssgPage_def errorPage_def demoState_def demoRequest_def demoOpts_def
  demoOutput_def noReenter_def emptyStore_def

lemmas generator_defs =
  generatorPath_def responseGenerator_def hasStaticPaths_def getStaticPaths_def
  fallbackMode_bot_def fallbackMode_manual_def fallbackBlock_def userAgent_def
  staticFallback_def onDemandFallback_def renderWithRevalidate_def doRender_def
  isLikeServerless_def record_call_def render_input_of_def localeOf_def localePrefix_def
  hasServerProps_def hasGetInitialProps_def deleteKeys_def prepareServerlessUrl_def

lemmas pipeline_defs =
  render404_def render404_target_def renderError_def pipe_def pipeContext_def reentered_def
  setHeader_def setStatusCode_def record_call_def thrown_def

lemmas render_defs =
  renderToResponseWithComponents_def stateAfterPreamble_def scopeForLookup_def preamble_def
  methodNotAllowed_def buildScope_def isDataReq_of_def isSSG_def isServerComponent_def
  isFlightRequest_def supportsDynamicHTML_of_def isPreviewMode_of_def ssgCacheKey_initial_def
  ssgCacheKey_normalized_def is404Page_def is500Page_def ampSuffix_def respond_def
  cacheHeader_def revalidateOptions_of_def applyRevalidateHeaders_def handleRedirect_def
  stripNextDataPath_def

lemmas dispatch_defs =
  renderToResponse_def tryCandidates_def renderPageComponent_def getOriginalAppPaths_def
  renderErrorToResponse_def renderErrorToResponse_try_def statusPage_of_def showNat.simps
  digitChar_def isWrappedBuildError_def innerError_def




section \<open>The cache key of the status pages\<close>



section \<open>The cache key in preview mode\<close>

lemma preview_key_initial:
  assumes "\<not> ((is404Page p \<or> is500Page p) \<and> ssg)"
  shows "ssgCacheKey_initial True ssg dynamicHTML flight p resolved q = None"
  using assms by (auto simp: ssgCacheKey_initial_def)

lemma buildScope_key:
  "buildScope srv p c q1 opts dataReq r = Inr sc \<Longrightarrow>
   isPreviewMode sc = isPreviewMode_of srv c r \<and> pathname sc = p \<and> comps sc = c \<and>
   isDataReq sc = dataReq \<and>
   isManualRevalidate sc = (isSSG srv c \<and> fst (checkIsManualRevalidate srv r)) \<and>
   revalidateOnlyGenerated sc = (isSSG srv c \<and> snd (checkIsManualRevalidate srv r))"
  by (auto simp: buildScope_def Let_def case_prod_beta split: sum.splits if_splits)

text \<open>
  Claim C4, amended. For a request in preview mode the cache key is \<open>null\<close>, unless the page
  is \<open>/404\<close> or \<open>/500\<close> rendered as an SSG page: the scope is built without error, it is
  in preview mode, and its key is \<open>None\<close>.
\<close>

theorem C4_preview_key_null:
  assumes preview: "isPreviewMode_of srv c r"
    and not_status: "\<not> ((is404Page p \<or> is500Page p) \<and> isSSG srv c)"
  shows "\<exists>sc. buildScope srv p c q1 opts dataReq r = Inr sc \<and> isPreviewMode sc \<and>
              ssgCacheKey sc = None"
  using preview preview_key_initial [OF not_status]
  by (simp add: buildScope_def Let_def case_prod_beta ssgCacheKey_normalized_def)

theorem C4_preview_key_null_witness:
  "isPreviewMode_of demoServer ssgPage
     (demoRequest ''/blog/hello'' [(''cookie'', ''__next_preview_data'')])
   \<and> map_sum id ssgCacheKey
        (buildScope demoServer ''/blog/[slug]'' ssgPage Map.empty demoOpts False
           (demoRequest ''/blog/hello'' [(''cookie'', ''__next_preview_data'')])) = Inr None"
proof -
  let ?r = "demoRequest ''/blog/hello'' [(''cookie'', ''__next_preview_data'')]"
  have preview: "isPreviewMode_of demoServer ssgPage ?r"
    by (simp add: isPreviewMode_of_def isSSG_def ssgPage_def demoServer_simps demoRequest_def
        hasServerProps_def)
  have not_status:
    "\<not> ((is404Page ''/blog/[slug]'' \<or> is500Page ''/blog/[slug]'') \<and> isSSG demoServer ssgPage)"
    by (simp add: is404Page_def is500Page_def)
  from C4_preview_key_null [OF preview not_status, of Map.empty demoOpts False]
  show ?thesis using preview by auto
qed

text \<open>
  Claim C4 as stated fails: a preview request that renders the SSG page \<open>/404\<close> gets the
  key \<open>/404\<close>, because the assignment for status pages comes after the preview test.
\<close>

theorem C4_counterexample:
  "isPreviewMode_of demoServer ssgPage
     (demoRequest ''/blog/hello'' [(''cookie'', ''__next_preview_data'')])
   \<and> map_sum id ssgCacheKey
        (buildScope demoServer ''/404'' ssgPage Map.empty demoOpts False
           (demoRequest ''/blog/hello'' [(''cookie'', ''__next_preview_data'')])) =
       Inr (Some ''/404'')"
  by (simp add: isPreviewMode_of_def isSSG_def ssgPage_def demoServer_simps demoRequest_def
      hasServerProps_def buildScope_def Let_def supportsDynamicHTML_of_def demoOpts_def
      ssgCacheKey_initial_def is404Page_def is500Page_def localePrefix_def localeOf_def
      ampSuffix_def ssgCacheKey_normalized_def isFlightRequest_def)

section \<open>The response generator, way by way\<close>


lemma responseGenerator_PathNoFallback:
  assumes "generatorPath srv sc hasResolved hadCache s = PathNoFallback"
  shows "responseGenerator srv R sc hasResolved hadCache s = (Inl NoFallbackError, s)"
  using assms
  by (auto simp: generatorPath_def responseGenerator_def Let_def
      split: sum.splits prod.splits if_splits)

lemma responseGenerator_PathStaticFallback:
  assumes "generatorPath srv sc hasResolved hadCache s = PathStaticFallback"
  shows "responseGenerator srv R sc hasResolved hadCache s = staticFallback srv sc s"
  using assms
  by (auto simp: generatorPath_def responseGenerator_def Let_def
      split: sum.splits prod.splits if_splits)

lemma responseGenerator_PathOnDemandFallback:
  assumes "generatorPath srv sc hasResolved hadCache s = PathOnDemandFallback"
  shows "responseGenerator srv R sc hasResolved hadCache s = onDemandFallback srv sc s"
  using assms
  by (auto simp: generatorPath_def responseGenerator_def Let_def
      split: sum.splits prod.splits if_splits)

lemma responseGenerator_PathRender:
  assumes "generatorPath srv sc hasResolved hadCache s = PathRender"
  shows "responseGenerator srv R sc hasResolved hadCache s = renderWithRevalidate srv sc s"
  using assms
  by (auto simp: generatorPath_def responseGenerator_def Let_def
      split: sum.splits prod.splits if_splits)

lemma responseGenerator_PathStaticPathsError:
  assumes "generatorPath srv sc hasResolved hadCache s = PathStaticPathsError"
  shows "\<exists>e. getStaticPaths srv (pathname sc) = Inl e \<and>
             responseGenerator srv R sc hasResolved hadCache s = (Inl e, s)"
  using assms
  by (auto simp: generatorPath_def responseGenerator_def Let_def
      split: sum.splits prod.splits if_splits)

lemma staticFallback_revalidate:
  "staticFallback srv sc s = (Inr (Some entry), s') \<Longrightarrow> revalidate entry = None"
  by (auto simp: staticFallback_def Let_def split: sum.splits)

lemma onDemandFallback_revalidate:
  "onDemandFallback srv sc s = (Inr (Some entry), s') \<Longrightarrow> revalidate entry = None"
  by (auto simp: onDemandFallback_def Let_def split: sum.splits prod.splits option.splits)

text \<open>
  Claim C6. On a miss answered with a fallback skeleton, in production from the prebuilt
  fallback page and in development from a render on demand, every cache entry the
  response generator returns has no \<open>revalidate\<close>.
\<close>

theorem C6_skeleton_without_revalidate:
  assumes skeleton:
    "generatorPath srv sc hasResolved hadCache s = PathStaticFallback \<or>
     generatorPath srv sc hasResolved hadCache s = PathOnDemandFallback"
  shows "responseGenerator srv R sc hasResolved hadCache s =
           (if dev srv then onDemandFallback srv sc s else staticFallback srv sc s)
       \<and> (\<forall>entry s'. responseGenerator srv R sc hasResolved hadCache s = (Inr (Some entry), s')
             \<longrightarrow> revalidate entry = None)"
proof -
  have way: "generatorPath srv sc hasResolved hadCache s =
               (if dev srv then PathOnDemandFallback else PathStaticFallback)"
    using skeleton
    by (auto simp: generatorPath_def Let_def split: sum.splits prod.splits if_splits)
  have eq: "responseGenerator srv R sc hasResolved hadCache s =
              (if dev srv then onDemandFallback srv sc s else staticFallback srv sc s)"
    using way
    by (simp add: responseGenerator_PathOnDemandFallback responseGenerator_PathStaticFallback)
  show ?thesis
    unfolding eq
    by (auto dest: staticFallback_revalidate onDemandFallback_revalidate)
qed

theorem C6_skeleton_without_revalidate_witness:
  "generatorPath demoServer (demoScope ''/posts/[id]'' ''/posts/7'') False False
     (demoState (demoRequest ''/posts/7'' [])) = PathStaticFallback
   \<and> fst (responseGenerator demoServer noReenter
             (demoScope ''/posts/[id]'' ''/posts/7'') False False
             (demoState (demoRequest ''/posts/7'' []))) =
       Inr (Some \<lparr>revalidate = None,
                  entry_value = Some (PAGE (fromStatic ''<p>loading</p>'') (JObj [])),
                  isStale = False, isMiss = False\<rparr>)"
proof -
  let ?sc = "demoScope ''/posts/[id]'' ''/posts/7''"
  let ?s = "demoState (demoRequest ''/posts/7'' [])"
  have way: "generatorPath demoServer ?sc False False ?s = PathStaticFallback"
    by (simp add: generator_defs demo_defs demoServer_simps Let_def)
  have production: "\<not> dev demoServer"
    by (simp add: demoServer_simps)
  from C6_skeleton_without_revalidate [OF disjI1 [OF way], of noReenter]
  have eq: "responseGenerator demoServer noReenter ?sc False False ?s =
              staticFallback demoServer ?sc ?s"
    using production by simp
  have run: "fst (staticFallback demoServer ?sc ?s) =
               Inr (Some \<lparr>revalidate = None,
                          entry_value = Some (PAGE (fromStatic ''<p>loading</p>'') (JObj [])),
                          isStale = False, isMiss = False\<rparr>)"
    by (simp add: generator_defs demo_defs demoServer_simps Let_def)
  show ?thesis
    unfolding eq using way run by simp
qed

lemma C6_development_example:
  "generatorPath (demoServer\<lparr>dev := True\<rparr>) (demoScope ''/posts/[id]'' ''/posts/7'')
     False False (demoState (demoRequest ''/posts/7'' [])) = PathOnDemandFallback
   \<and> fst (responseGenerator (demoServer\<lparr>dev := True\<rparr>) noReenter
             (demoScope ''/posts/[id]'' ''/posts/7'') False False
             (demoState (demoRequest ''/posts/7'' []))) =
       Inr (Some \<lparr>revalidate = None,
                  entry_value = Some (PAGE (fromStatic ''<p>page</p>'') (JObj [])),
                  isStale = False, isMiss = False\<rparr>)"
  by (simp add: generator_defs demo_defs demoServer_simps Let_def)

text \<open>
  Claim C7. On the way through the full render, an entry that \<open>doRender\<close> returns without
  \<open>revalidate\<close> is handed to the store with \<open>revalidate = 1\<close>; an entry with a
  \<open>revalidate\<close> keeps it. Nothing else of the entry changes.
\<close>

theorem C7_revalidate_default:
  assumes way: "generatorPath srv sc hasResolved hadCache s = PathRender"
    and rendered: "doRender srv sc s = (Inr (Some result), s')"
  shows "responseGenerator srv R sc hasResolved hadCache s =
           (Inr (Some (result\<lparr>revalidate :=
                          (case revalidate result of
                             None \<Rightarrow> Some (Seconds 1)
                           | Some r \<Rightarrow> Some r)\<rparr>)), s')
       \<and> (revalidate result = None \<longrightarrow>
            (\<exists>entry. responseGenerator srv R sc hasResolved hadCache s = (Inr (Some entry), s')
                     \<and> revalidate entry = Some (Seconds 1)
                     \<and> entry_value entry = entry_value result))
       \<and> (\<forall>r. revalidate result = Some r \<longrightarrow>
            responseGenerator srv R sc hasResolved hadCache s = (Inr (Some result), s'))"
proof -
  have eq: "responseGenerator srv R sc hasResolved hadCache s =
              (Inr (Some (result\<lparr>revalidate :=
                             (case revalidate result of
                                None \<Rightarrow> Some (Seconds 1)
                              | Some r \<Rightarrow> Some r)\<rparr>)), s')"
    using rendered
    by (simp add: responseGenerator_PathRender [OF way] renderWithRevalidate_def
        split: option.splits)
  show ?thesis
    unfolding eq by (auto split: option.splits)
qed

theorem C7_revalidate_default_witness:
  "generatorPath demoServer (demoScope ''/posts/[id]'' ''/posts/7'') True True
     (demoState (demoRequest ''/posts/7'' [])) = PathRender
   \<and> fst (doRender demoServer (demoScope ''/posts/[id]'' ''/posts/7'')
            (demoState (demoRequest ''/posts/7'' []))) =
       Inr (Some \<lparr>revalidate = None,
                  entry_value = Some (PAGE (fromStatic ''<p>page</p>'') (JObj [])),
                  isStale = False, isMiss = False\<rparr>)
   \<and> fst (responseGenerator demoServer noReenter (demoScope ''/posts/[id]'' ''/posts/7'')
            True True (demoState (demoRequest ''/posts/7'' []))) =
       Inr (Some \<lparr>revalidate = Some (Seconds 1),
                  entry_value = Some (PAGE (fromStatic ''<p>page</p>'') (JObj [])),
                  isStale = False, isMiss = False\<rparr>)"
proof -
  let ?sc = "demoScope ''/posts/[id]'' ''/posts/7''"
  let ?s = "demoState (demoRequest ''/posts/7'' [])"
  let ?result = "\<lparr>revalidate = None,
                   entry_value = Some (PAGE (fromStatic ''<p>page</p>'') (JObj [])),
                   isStale = False, isMiss = False\<rparr>"
  have way: "generatorPath demoServer ?sc True True ?s = PathRender"
    by (simp add: generator_defs demo_defs demoServer_simps Let_def)
  obtain s' where rendered: "doRender demoServer ?sc ?s = (Inr (Some ?result), s')"
    by (simp add: generator_defs demo_defs demoServer_simps Let_def)
  from C7_revalidate_default [OF way rendered, of noReenter] way rendered
  show ?thesis by simp
qed

section \<open>Bots and the fallback mode\<close>

lemma getStaticPaths_manifest_string:
  assumes "getStaticPaths_override srv = None"
    and "prerenderDynamicRoutes srv p = Some (FieldString placeholder)"
  shows "getStaticPaths srv p = Inr (None, FallbackStatic)"
  using assms by (simp add: getStaticPaths_def)

lemma bot_never_static:
  assumes "isBot srv (userAgent r)"
  shows "fallbackMode_manual sc hadCache (fallbackMode_bot srv r fm) \<noteq> FallbackStatic"
  using assms by (simp add: fallbackMode_manual_def fallbackMode_bot_def)

text \<open>
  Claim C8. For a bot and a page with \<open>getStaticPaths\<close> whose manifest entry declares a
  string fallback, the fallback mode the response generator works with is \<open>blocking\<close>:
  that is the value of \<open>fallbackMode\<close> after its assignments, and the generator either
  answers 404 (manual revalidation of a path never generated) or does the full render; it
  serves no skeleton and raises no \<open>NoFallbackError\<close>.
\<close>

theorem C8_bot_blocking:
  assumes paths: "hasStaticPaths (comps sc)"
    and base: "getStaticPaths_override srv = None"
    and declared: "prerenderDynamicRoutes srv (pathname sc) = Some (FieldString placeholder)"
    and bot: "isBot srv (userAgent (req s))"
  shows "effectiveFallbackMode srv sc hadCache (req s) = Inr FallbackBlocking
       \<and> (generatorPath srv sc hasResolved hadCache s = PathNotFound \<or>
          generatorPath srv sc hasResolved hadCache s = PathRender)
       \<and> (\<not> (isManualRevalidate sc \<and> revalidateOnlyGenerated sc \<and> \<not> hadCache \<and>
              \<not> minimalMode srv) \<longrightarrow>
          responseGenerator srv R sc hasResolved hadCache s = renderWithRevalidate srv sc s)"
proof -
  have static: "getStaticPaths srv (pathname sc) = Inr (None, FallbackStatic)"
    using base declared by (rule getStaticPaths_manifest_string)
  have mode: "effectiveFallbackMode srv sc hadCache (req s) = Inr FallbackBlocking"
    using paths static bot
    by (simp add: effectiveFallbackMode_def fallbackMode_bot_def fallbackMode_manual_def)
  have way: "generatorPath srv sc hasResolved hadCache s =
               (if isManualRevalidate sc \<and> revalidateOnlyGenerated sc \<and> \<not> hadCache \<and>
                   \<not> minimalMode srv
                then PathNotFound else PathRender)"
    using paths static bot
    by (simp add: generatorPath_def fallbackMode_bot_def fallbackMode_manual_def
        fallbackBlock_def)
  show ?thesis
    using mode way by (auto simp: responseGenerator_PathRender)
qed

theorem C8_bot_blocking_witness:
  "effectiveFallbackMode demoServer (demoScope ''/posts/[id]'' ''/posts/7'') False
     (demoRequest ''/posts/7'' [(''user-agent'', ''Googlebot'')]) = Inr FallbackBlocking
   \<and> generatorPath demoServer (demoScope ''/posts/[id]'' ''/posts/7'') False False
       (demoState (demoRequest ''/posts/7'' [(''user-agent'', ''Googlebot'')])) = PathRender
   \<and> generatorPath demoServer (demoScope ''/posts/[id]'' ''/posts/7'') False False
       (demoState (demoRequest ''/posts/7'' [])) = PathStaticFallback"
proof -
  let ?sc = "demoScope ''/posts/[id]'' ''/posts/7''"
  let ?s = "demoState (demoRequest ''/posts/7'' [(''user-agent'', ''Googlebot'')])"
  have paths: "hasStaticPaths (comps ?sc)"
    by (simp add: hasStaticPaths_def demo_defs)
  have base: "getStaticPaths_override demoServer = None"
    by (simp add: demoServer_simps)
  have declared:
    "prerenderDynamicRoutes demoServer (pathname ?sc) = Some (FieldString ''/posts/[id].html'')"
    by (simp add: demoServer_simps demo_defs)
  have bot: "isBot demoServer (userAgent (req ?s))"
    by (simp add: demoServer_simps demo_defs userAgent_def)
  have human: "generatorPath demoServer ?sc False False (demoState (demoRequest ''/posts/7'' []))
                 = PathStaticFallback"
    by (simp add: generator_defs demo_defs demoServer_simps Let_def)
  have botway: "generatorPath demoServer ?sc False False ?s = PathRender"
    by (simp add: generator_defs demo_defs demoServer_simps Let_def)
  have request: "req ?s = demoRequest ''/posts/7'' [(''user-agent'', ''Googlebot'')]"
    by (simp add: demoState_def)
  from C8_bot_blocking [OF paths base declared bot]
  have "effectiveFallbackMode demoServer ?sc False (req ?s) = Inr FallbackBlocking"
    by blast
  with request human botway show ?thesis
    by simp
qed

section \<open>\<open>render404\<close> and \<open>renderError\<close> from within a render\<close>



text \<open>
  Whatever the inner activation returns, the calls recorded when \<open>renderError\<close> returns
  are those recorded when the inner activation returned, and then at most the sending of
  its payload.
\<close>

lemma renderError_calls:
  fixes srv R e p q h s
  defines "sE \<equiv> record_call (CallRenderErrorToResponse p)
                   (if h then setHeader ''Cache-Control''
                                [''no-cache, no-store, max-age=0, must-revalidate''] s
                    else s)"
  shows "calls (snd (renderError srv R e p q h s)) =
           calls (snd (R (pipeContext srv p q (req s)) e sE)) \<or>
         (\<exists>ty. calls (snd (renderError srv R e p q h s)) =
                 calls (snd (R (pipeContext srv p q (req s)) e sE)) @ [CallSendRenderResult ty])"
proof -
  obtain r s' where inner: "R (pipeContext srv p q (req s)) e sE = (r, s')"
    by (cases "R (pipeContext srv p q (req s)) e sE")
  have ctx: "ctx_pathname (pipeContext srv p q (req s)) = p"
    by (simp add: pipeContext_def)
  show ?thesis
  proof (cases h)
    case True
    with inner ctx show ?thesis
      unfolding sE_def
      by (cases r)
        (auto simp: renderError_def pipe_def reentered_def setHeader_def record_call_def
          Let_def split: option.splits sum.splits)
  next
    case False
    with inner ctx show ?thesis
      unfolding sE_def
      by (cases r)
        (auto simp: renderError_def pipe_def reentered_def setHeader_def record_call_def
          Let_def split: option.splits sum.splits)
  qed
qed

lemma renderError_producer:
  "filter isProducerCall (calls (snd (renderError srv R e p q h s))) =
   filter isProducerCall
     (calls (snd (R (pipeContext srv p q (req s)) e
                    (record_call (CallRenderErrorToResponse p)
                       (if h then setHeader ''Cache-Control''
                                    [''no-cache, no-store, max-age=0, must-revalidate''] s
                        else s)))))"
  using renderError_calls [of srv R e p q h s] by auto

text \<open>
  When the inner activation returns a payload, the response is not sent yet, and
  \<open>renderError\<close> does not rethrow, the payload is sent.
\<close>

lemma renderError_sends:
  assumes inner: "R (pipeContext srv p q (req s)) e
                    (record_call (CallRenderErrorToResponse p)
                       (if h then setHeader ''Cache-Control''
                                    [''no-cache, no-store, max-age=0, must-revalidate''] s
                        else s)) = (Inr (Some payload), s')"
    and unsent: "\<not> sent (res s')"
    and kept: "\<not> (minimalMode srv \<and> statusCode (res s') = Some 500)"
  shows "renderError srv R e p q h s =
           (let t0 = s'\<lparr>sharedQuery := sharedQuery s\<rparr>;
                t1 = (if dev srv
                      then setHeader ''Cache-Control'' [''no-store, must-revalidate''] t0
                      else t0);
                t = record_call (CallSendRenderResult (payload_type payload)) t1
            in case sendRenderResult srv (req t) payload (res t) of
                 Inl x \<Rightarrow> (Inl x, t)
               | Inr r \<Rightarrow> (Inr (), t\<lparr>res := r\<rparr>))"
proof (cases h)
  case True
  with inner unsent kept show ?thesis
    by (auto simp: renderError_def pipe_def reentered_def setHeader_def record_call_def
        pipeContext_def Let_def)
next
  case False
  with inner unsent kept show ?thesis
    by (auto simp: renderError_def pipe_def reentered_def setHeader_def record_call_def
        pipeContext_def Let_def)
qed

section \<open>Manual revalidation of a path that was never generated\<close>





section \<open>The code after the cache lookup\<close>

lemma renderToResponseWithComponents_lookup:
  assumes allowed: "\<not> methodNotAllowed srv (ctx_pathname ctx) c (req (stateAfterPreamble srv ctx (c, q0) s))"
    and component: "Component c = ReactComponent g"
    and scope: "scopeForLookup srv ctx (c, q0) s = Inr sc"
    and lookup: "responseCache_get srv (ssgCacheKey sc) (responseGenerator srv R sc)
                   (isManualRevalidate sc,
                    headers (req (stateAfterPreamble srv ctx (c, q0) s)) ''purpose'' =
                      Some ''prefetch'')
                   ((stateAfterPreamble srv ctx (c, q0) s)\<lparr>sharedQuery := query sc\<rparr>) =
                 (Inr cacheEntry, s')"
  shows "renderToResponseWithComponents srv R ctx (c, q0) s = respond srv R sc cacheEntry s'"
  using assms
  by (simp add: renderToResponseWithComponents_def stateAfterPreamble_def scopeForLookup_def
      Let_def)

lemma respond_no_entry:
  assumes "truthy (ssgCacheKey sc)"
    and "\<not> (isManualRevalidate sc \<and> revalidateOnlyGenerated sc)"
  shows "respond srv R sc None s =
           (Inl (Error ''invariant: cache entry required but not generated''), s)"
  using assms by (simp add: respond_def)

text \<open>
  Claim C1, amended. When the store returns no entry for a non-empty cache key, and the
  request is not a manual revalidation under "revalidate only generated", the function
  raises a plain \<open>Error\<close> with the message "invariant: cache entry required but not
  generated", in the state the store left.
\<close>

theorem C1_entry_required:
  assumes allowed: "\<not> methodNotAllowed srv (ctx_pathname ctx) c (req (stateAfterPreamble srv ctx (c, q0) s))"
    and component: "Component c = ReactComponent g"
    and scope: "scopeForLookup srv ctx (c, q0) s = Inr sc"
    and lookup: "responseCache_get srv (ssgCacheKey sc) (responseGenerator srv R sc)
                   (isManualRevalidate sc,
                    headers (req (stateAfterPreamble srv ctx (c, q0) s)) ''purpose'' =
                      Some ''prefetch'')
                   ((stateAfterPreamble srv ctx (c, q0) s)\<lparr>sharedQuery := query sc\<rparr>) =
                 (Inr None, s')"
    and key: "truthy (ssgCacheKey sc)"
    and notSkipped: "\<not> (isManualRevalidate sc \<and> revalidateOnlyGenerated sc)"
  shows "renderToResponseWithComponents srv R ctx (c, q0) s =
           (Inl (Error ''invariant: cache entry required but not generated''), s')"
  using renderToResponseWithComponents_lookup [OF allowed component scope lookup]
    respond_no_entry [OF key notSkipped]
  by simp

theorem C1_entry_required_witness:
  "scopeForLookup (demoServer\<lparr>renderHTML := \<lambda>r i. Inr (demoOutput\<lparr>out_body := None\<rparr>)\<rparr>)
     \<lparr>ctx_pathname = ''/about'', ctx_query = Map.empty, ctx_renderOpts = demoOpts\<rparr>
     (ssgPage\<lparr>getStaticPaths_present := False\<rparr>, Map.empty)
     (demoState (demoRequest ''/about'' [])) =
   Inr ((demoScope ''/about'' ''/about'')\<lparr>comps := ssgPage\<lparr>getStaticPaths_present := False\<rparr>\<rparr>)
   \<and> fst (renderToResponseWithComponents
            (demoServer\<lparr>renderHTML := \<lambda>r i. Inr (demoOutput\<lparr>out_body := None\<rparr>)\<rparr>) noReenter
            \<lparr>ctx_pathname = ''/about'', ctx_query = Map.empty, ctx_renderOpts = demoOpts\<rparr>
            (ssgPage\<lparr>getStaticPaths_present := False\<rparr>, Map.empty)
            (demoState (demoRequest ''/about'' []))) =
       Inl (Error ''invariant: cache entry required but not generated'')"
proof -
  let ?srv = "demoServer\<lparr>renderHTML := \<lambda>r i. Inr (demoOutput\<lparr>out_body := None\<rparr>)\<rparr>"
  let ?ctx = "\<lparr>ctx_pathname = ''/about'', ctx_query = Map.empty, ctx_renderOpts = demoOpts\<rparr>"
  let ?c = "ssgPage\<lparr>getStaticPaths_present := False\<rparr>"
  let ?s = "demoState (demoRequest ''/about'' [])"
  let ?sc = "(demoScope ''/about'' ''/about'')\<lparr>comps := ?c\<rparr>"
  have pre: "stateAfterPreamble ?srv ?ctx (?c, Map.empty) ?s = ?s"
    by (simp add: render_defs demo_defs demoServer_simps localeOf_def)
  have shared: "?s\<lparr>sharedQuery := query ?sc\<rparr> = ?s"
    by (simp add: demo_defs)
  have allowed: "\<not> methodNotAllowed ?srv (ctx_pathname ?ctx) ?c
                     (req (stateAfterPreamble ?srv ?ctx (?c, Map.empty) ?s))"
    unfolding pre by (simp add: methodNotAllowed_def demo_defs)
  have component: "Component ?c = ReactComponent False"
    by (simp add: demo_defs)
  have scope: "scopeForLookup ?srv ?ctx (?c, Map.empty) ?s = Inr ?sc"
    unfolding scopeForLookup_def pre
    by (simp add: render_defs demo_defs demoServer_simps localeOf_def localePrefix_def
        hasServerProps_def isLikeServerless_def hasGetInitialProps_def Let_def)
  obtain s' where lookup:
    "responseCache_get ?srv (ssgCacheKey ?sc) (responseGenerator ?srv noReenter ?sc)
       (isManualRevalidate ?sc,
        headers (req (stateAfterPreamble ?srv ?ctx (?c, Map.empty) ?s)) ''purpose'' =
          Some ''prefetch'')
       ((stateAfterPreamble ?srv ?ctx (?c, Map.empty) ?s)\<lparr>sharedQuery := query ?sc\<rparr>) =
     (Inr None, s')"
    unfolding pre shared
    by (simp add: generator_defs demo_defs demoServer_simps Let_def)
  have key: "truthy (ssgCacheKey ?sc)"
    by (simp add: demo_defs)
  have notSkipped: "\<not> (isManualRevalidate ?sc \<and> revalidateOnlyGenerated ?sc)"
    by (simp add: demo_defs)
  from C1_entry_required [OF allowed component scope lookup key notSkipped] scope
  show ?thesis by simp
qed

text \<open>
  Claim C1 as stated fails twice. For a manual revalidation under "revalidate only
  generated" the key is \<open>/posts/7\<close>, the store returns no entry (its generator answered
  404), and the function returns \<open>null\<close> without raising. And the error raised otherwise
  is not distinguishable from an error of the renderer: a renderer that throws an \<open>Error\<close>
  with the same message makes the function end with the same error in the same state as a
  renderer that returns nothing for a non-empty key.
\<close>

theorem C1_counterexample:
  "scopeForLookup demoServer
     \<lparr>ctx_pathname = ''/posts/[id]'', ctx_query = Map.empty, ctx_renderOpts = demoOpts\<rparr>
     (ssgPage, Map.empty)
     (demoState (demoRequest ''/posts/7''
        [(''x-prerender-revalidate'', ''secret''),
         (''x-prerender-revalidate-if-generated'', ''1'')])) =
   Inr ((demoScope ''/posts/[id]'' ''/posts/7'')
          \<lparr>isManualRevalidate := True, revalidateOnlyGenerated := True\<rparr>)
   \<and> fst (responseCache_get demoServer (Some ''/posts/7'')
            (responseGenerator demoServer (renderErrorToResponse demoServer noReenter)
               ((demoScope ''/posts/[id]'' ''/posts/7'')
                  \<lparr>isManualRevalidate := True, revalidateOnlyGenerated := True\<rparr>))
            (True, False)
            (demoState (demoRequest ''/posts/7''
               [(''x-prerender-revalidate'', ''secret''),
                (''x-prerender-revalidate-if-generated'', ''1'')]))) = Inr None
   \<and> fst (renderToResponseWithComponents demoServer
            (renderErrorToResponse demoServer noReenter)
            \<lparr>ctx_pathname = ''/posts/[id]'', ctx_query = Map.empty, ctx_renderOpts = demoOpts\<rparr>
            (ssgPage, Map.empty)
            (demoState (demoRequest ''/posts/7''
               [(''x-prerender-revalidate'', ''secret''),
                (''x-prerender-revalidate-if-generated'', ''1'')]))) = Inr None
   \<and> fst (renderToResponseWithComponents
            (demoServer\<lparr>renderHTML := \<lambda>r i. Inr (demoOutput\<lparr>out_body := None\<rparr>)\<rparr>) noReenter
            \<lparr>ctx_pathname = ''/about'', ctx_query = Map.empty, ctx_renderOpts = demoOpts\<rparr>
            (ssgPage\<lparr>getStaticPaths_present := False\<rparr>, Map.empty)
            (demoState (demoRequest ''/about'' []))) =
       Inl (Error ''invariant: cache entry required but not generated'')
   \<and> renderToResponseWithComponents
        (demoServer\<lparr>renderHTML :=
           \<lambda>r i. Inl (Error ''invariant: cache entry required but not generated'')\<rparr>) noReenter
        \<lparr>ctx_pathname = ''/about'', ctx_query = Map.empty, ctx_renderOpts = demoOpts\<rparr>
        (ssgPage\<lparr>getStaticPaths_present := False\<rparr>, Map.empty)
        (demoState (demoRequest ''/about'' [])) =
      renderToResponseWithComponents
        (demoServer\<lparr>renderHTML := \<lambda>r i. Inr (demoOutput\<lparr>out_body := None\<rparr>)\<rparr>) noReenter
        \<lparr>ctx_pathname = ''/about'', ctx_query = Map.empty, ctx_renderOpts = demoOpts\<rparr>
        (ssgPage\<lparr>getStaticPaths_present := False\<rparr>, Map.empty)
        (demoState (demoRequest ''/about'' []))"
  by (simp add: dispatch_defs render_defs generator_defs pipeline_defs demo_defs
      demoServer_simps Let_def)

section \<open>Serving a cached page\<close>

text \<open>
  Claim C9. A cache entry whose value is a \<open>PAGE\<close> is answered, to a data request, with a
  payload of type \<open>json\<close> whose body is the JSON serialisation of the stored page data,
  and to any other request with a payload of type \<open>html\<close> whose body is the stored
  markup itself.
\<close>

theorem C9_page_entry_payload:
  assumes page: "entry_value entry = Some (PAGE markup pageData)"
  shows "(isDataReq sc \<longrightarrow>
            fst (respond srv R sc (Some entry) s) =
              Inr (Some \<lparr>payload_type = json,
                         payload_body = fromStatic (JSON_stringify srv pageData),
                         revalidateOptions = revalidateOptions_of srv sc entry\<rparr>))
       \<and> (\<not> isDataReq sc \<longrightarrow>
            fst (respond srv R sc (Some entry) s) =
              Inr (Some \<lparr>payload_type = html, payload_body = markup,
                         revalidateOptions = revalidateOptions_of srv sc entry\<rparr>))"
  using page by (simp add: respond_def Let_def)

theorem C9_page_entry_payload_witness:
  "fst (respond demoServer noReenter ((demoScope ''/posts/[id]'' ''/posts/7'')\<lparr>isDataReq := True\<rparr>)
          (Some \<lparr>revalidate = Some (Seconds 60),
                 entry_value = Some (PAGE (fromStatic ''<p>seven</p>'') (JObj [])),
                 isStale = False, isMiss = False\<rparr>)
          (demoState (demoRequest ''/posts/7'' []))) =
     Inr (Some \<lparr>payload_type = json, payload_body = fromStatic ''{}'',
                revalidateOptions =
                  Some \<lparr>opt_private = False, opt_stateful = False,
                        opt_revalidate = Seconds 60\<rparr>\<rparr>)
   \<and> fst (respond demoServer noReenter (demoScope ''/posts/[id]'' ''/posts/7'')
          (Some \<lparr>revalidate = Some (Seconds 60),
                 entry_value = Some (PAGE (fromStatic ''<p>seven</p>'') (JObj [])),
                 isStale = False, isMiss = False\<rparr>)
          (demoState (demoRequest ''/posts/7'' []))) =
     Inr (Some \<lparr>payload_type = html, payload_body = fromStatic ''<p>seven</p>'',
                revalidateOptions =
                  Some \<lparr>opt_private = False, opt_stateful = False,
                        opt_revalidate = Seconds 60\<rparr>\<rparr>)"
proof -
  let ?entry = "\<lparr>revalidate = Some (Seconds 60),
                  entry_value = Some (PAGE (fromStatic ''<p>seven</p>'') (JObj [])),
                  isStale = False, isMiss = False\<rparr>"
  let ?s = "demoState (demoRequest ''/posts/7'' [])"
  have page: "entry_value ?entry = Some (PAGE (fromStatic ''<p>seven</p>'') (JObj []))"
    by simp
  have options:
    "revalidateOptions_of demoServer sc ?entry =
       Some \<lparr>opt_private = (isPreviewMode sc \<or> pathname sc = ''/404''),
             opt_stateful = \<not> isSSG demoServer (comps sc),
             opt_revalidate = Seconds 60\<rparr>" for sc
    by (simp add: revalidateOptions_of_def demoServer_simps is404Page_def)
  have ssg: "isSSG demoServer ssgPage"
    by (simp add: isSSG_def ssgPage_def)
  from C9_page_entry_payload [OF page, of "(demoScope ''/posts/[id]'' ''/posts/7'')\<lparr>isDataReq := True\<rparr>"
      demoServer noReenter ?s]
    C9_page_entry_payload [OF page, of "demoScope ''/posts/[id]'' ''/posts/7''"
      demoServer noReenter ?s]
  show ?thesis
    by (simp add: options ssg demoScope_def demoServer_simps)
qed


section \<open>Methods other than \<open>GET\<close> and \<open>HEAD\<close>\<close>

lemma preamble_calls: "calls (preamble srv p c q d s) = calls s"
  by (simp add: preamble_def Let_def setHeader_def setStatusCode_def)

lemma preamble_method: "http_method (req (preamble srv p c q d s)) = http_method (req s)"
  by (simp add: preamble_def Let_def setHeader_def setStatusCode_def)

text \<open>
  Claim C10. A request with a method other than \<open>GET\<close> and \<open>HEAD\<close> for a page that is
  static markup or an SSG page, and not \<open>/404\<close>, \<open>/500\<close> or \<open>/_error\<close>. The function sets
  the status 405 and the header \<open>Allow: GET, HEAD\<close> and calls \<open>renderError\<close> for the
  path; the error-page activation runs on the response with that status and that header
  (and the \<open>Cache-Control\<close> header of \<open>renderError\<close>). When it returns a payload, the
  response is not sent yet and \<open>renderError\<close> does not rethrow, that payload is sent and
  the function returns \<open>null\<close>. The function never returns a payload, and it does not run
  the renderer of the page: the renderer calls in the record afterwards are exactly those
  in the record the error-page activation returned, and that activation started from the
  record of before plus the note of the re-entry.
\<close>

theorem C10_method_not_allowed:
  fixes srv :: server and R :: reenter and ctx :: RequestContext and c :: components
    and q0 :: query and s :: state
  defines "s405 \<equiv> setHeader ''Allow'' [''GET'', ''HEAD'']
                    (setStatusCode (Some 405) (stateAfterPreamble srv ctx (c, q0) s))"
    and "ctxE \<equiv> pipeContext srv (ctx_pathname ctx) Map.empty
                    (req (stateAfterPreamble srv ctx (c, q0) s))"
    and "sE \<equiv> record_call (CallRenderErrorToResponse (ctx_pathname ctx))
                  (setHeader ''Cache-Control''
                     [''no-cache, no-store, max-age=0, must-revalidate'']
                     (setHeader ''Allow'' [''GET'', ''HEAD'']
                        (setStatusCode (Some 405) (stateAfterPreamble srv ctx (c, q0) s))))"
  assumes not404: "\<not> is404Page (ctx_pathname ctx)"
    and not500: "\<not> is500Page (ctx_pathname ctx)"
    and notError: "ctx_pathname ctx \<noteq> ''/_error''"
    and notGet: "http_method (req s) \<noteq> ''GET''"
    and notHead: "http_method (req s) \<noteq> ''HEAD''"
    and static: "(\<exists>markup. Component c = StaticMarkup markup) \<or> isSSG srv c"
  shows "renderToResponseWithComponents srv R ctx (c, q0) s =
           (case renderError srv R None (ctx_pathname ctx) Map.empty True s405 of
              (Inl e, s') \<Rightarrow> (Inl e, s')
            | (Inr u, s') \<Rightarrow> (Inr None, s'))
       \<and> statusCode (res sE) = Some 405
       \<and> resHeaders (res sE) ''Allow'' = Some [''GET'', ''HEAD'']
       \<and> calls sE = calls s @ [CallRenderErrorToResponse (ctx_pathname ctx)]
       \<and> (\<forall>payload s'.
             R ctxE None sE = (Inr (Some payload), s') \<and> \<not> sent (res s') \<and>
             \<not> (minimalMode srv \<and> statusCode (res s') = Some 500) \<longrightarrow>
             renderToResponseWithComponents srv R ctx (c, q0) s =
               (let t0 = s'\<lparr>sharedQuery := sharedQuery s405\<rparr>;
                    t1 = (if dev srv
                          then setHeader ''Cache-Control'' [''no-store, must-revalidate''] t0
                          else t0);
                    t = record_call (CallSendRenderResult (payload_type payload)) t1
                in case sendRenderResult srv (req t) payload (res t) of
                     Inl x \<Rightarrow> (Inl x, t)
                   | Inr r \<Rightarrow> (Inr None, t\<lparr>res := r\<rparr>)))
       \<and> (\<forall>payload. fst (renderToResponseWithComponents srv R ctx (c, q0) s) \<noteq>
                       Inr (Some payload))
       \<and> filter isProducerCall (calls (snd (renderToResponseWithComponents srv R ctx (c, q0) s))) =
           filter isProducerCall (calls (snd (R ctxE None sE)))"
proof -
  let ?pre = "stateAfterPreamble srv ctx (c, q0) s"
  let ?err = "renderError srv R None (ctx_pathname ctx) Map.empty True s405"
  have sameMethod: "http_method (req ?pre) = http_method (req s)"
    by (simp add: stateAfterPreamble_def preamble_method)
  have refused: "methodNotAllowed srv (ctx_pathname ctx) c (req ?pre)"
    using not404 not500 notError notGet notHead static
    by (auto simp: methodNotAllowed_def sameMethod)
  have eq: "renderToResponseWithComponents srv R ctx (c, q0) s =
              (case ?err of (Inl e, s') \<Rightarrow> (Inl e, s') | (Inr u, s') \<Rightarrow> (Inr None, s'))"
    using refused
    by (simp add: renderToResponseWithComponents_def stateAfterPreamble_def Let_def s405_def)
  have status: "statusCode (res sE) = Some 405"
    by (simp add: sE_def setHeader_def setStatusCode_def record_call_def)
  have allow: "resHeaders (res sE) ''Allow'' = Some [''GET'', ''HEAD'']"
    by (simp add: sE_def setHeader_def record_call_def)
  have before: "calls sE = calls s @ [CallRenderErrorToResponse (ctx_pathname ctx)]"
    by (simp add: sE_def setHeader_def setStatusCode_def record_call_def
        stateAfterPreamble_def preamble_calls)
  have request: "req s405 = req ?pre"
    by (simp add: s405_def setHeader_def setStatusCode_def)
  have entered: "record_call (CallRenderErrorToResponse (ctx_pathname ctx))
                   (if True then setHeader ''Cache-Control''
                                  [''no-cache, no-store, max-age=0, must-revalidate''] s405
                    else s405) = sE"
    by (simp add: sE_def s405_def)
  have sent: "renderToResponseWithComponents srv R ctx (c, q0) s =
               (let t0 = s'\<lparr>sharedQuery := sharedQuery s405\<rparr>;
                    t1 = (if dev srv
                          then setHeader ''Cache-Control'' [''no-store, must-revalidate''] t0
                          else t0);
                    t = record_call (CallSendRenderResult (payload_type payload)) t1
                in case sendRenderResult srv (req t) payload (res t) of
                     Inl x \<Rightarrow> (Inl x, t)
                   | Inr r \<Rightarrow> (Inr None, t\<lparr>res := r\<rparr>))"
    if inner: "R ctxE None sE = (Inr (Some payload), s')" and unsent: "\<not> sent (res s')"
      and kept: "\<not> (minimalMode srv \<and> statusCode (res s') = Some 500)"
    for payload s'
  proof -
    have inner': "R (pipeContext srv (ctx_pathname ctx) Map.empty (req s405)) None
                    (record_call (CallRenderErrorToResponse (ctx_pathname ctx))
                       (if True then setHeader ''Cache-Control''
                                      [''no-cache, no-store, max-age=0, must-revalidate'']
                                      s405
                        else s405)) = (Inr (Some payload), s')"
      using inner unfolding entered request ctxE_def .
    note sends = renderError_sends [where R = R and srv = srv and e = None
        and p = "ctx_pathname ctx" and q = Map.empty and h = True and s = s405
        and payload = payload and s' = s', OF inner' unsent kept]
    show ?thesis
      unfolding eq sends by (simp add: Let_def split: sum.splits)
  qed
  have noPayload: "\<forall>payload. fst (renderToResponseWithComponents srv R ctx (c, q0) s) \<noteq>
                              Inr (Some payload)"
    unfolding eq by (auto split: prod.splits sum.splits)
  have state: "snd (renderToResponseWithComponents srv R ctx (c, q0) s) = snd ?err"
    unfolding eq by (auto split: prod.splits sum.splits)
  have noProducer:
    "filter isProducerCall (calls (snd (renderToResponseWithComponents srv R ctx (c, q0) s))) =
     filter isProducerCall (calls (snd (R ctxE None sE)))"
    unfolding state
    using renderError_producer [of srv R None "ctx_pathname ctx" Map.empty True s405]
    unfolding entered request ctxE_def by simp
  from eq status allow before sent noPayload noProducer show ?thesis
    by blast
qed

theorem C10_method_not_allowed_witness:
  "renderToResponseWithComponents demoServer (renderErrorToResponse demoServer noReenter)
     \<lparr>ctx_pathname = ''/posts/[id]'', ctx_query = Map.empty, ctx_renderOpts = demoOpts\<rparr>
     (ssgPage, Map.empty)
     (demoState ((demoRequest ''/posts/7'' [])\<lparr>http_method := ''POST''\<rparr>)) =
   (Inr None,
    \<lparr>req = (demoRequest ''/posts/7'' [])\<lparr>http_method := ''POST''\<rparr>,
     res = \<lparr>statusCode = Some 405,
            resHeaders = [''Allow'' \<mapsto> [''GET'', ''HEAD''],
                          ''Cache-Control'' \<mapsto>
                            [''no-cache, no-store, max-age=0, must-revalidate'']],
            resBody = None, sent = True\<rparr>,
     sharedQuery = Map.empty,
     calls = [CallRenderErrorToResponse ''/posts/[id]'',
              CallRenderHTML
                \<lparr>in_pathname = ''/_error'', in_query = Map.empty, in_isDataReq = False,
                 in_locale = None, in_resolvedUrl = ''/posts/7'',
                 in_resolvedAsPath = ''/posts/7'', in_supportsDynamicHTML = Some True\<rparr>,
              CallSendRenderResult html]\<rparr>)"
proof -
  let ?R = "renderErrorToResponse demoServer noReenter"
  let ?ctx = "\<lparr>ctx_pathname = ''/posts/[id]'', ctx_query = Map.empty, ctx_renderOpts = demoOpts\<rparr>"
  let ?s = "demoState ((demoRequest ''/posts/7'' [])\<lparr>http_method := ''POST''\<rparr>)"
  have not404: "\<not> is404Page (ctx_pathname ?ctx)" and not500: "\<not> is500Page (ctx_pathname ?ctx)"
    and notError: "ctx_pathname ?ctx \<noteq> ''/_error''"
    by (simp_all add: is404Page_def is500Page_def)
  have notGet: "http_method (req ?s) \<noteq> ''GET''" and notHead: "http_method (req ?s) \<noteq> ''HEAD''"
    by (simp_all add: demo_defs)
  have static: "(\<exists>markup. Component ssgPage = StaticMarkup markup) \<or> isSSG demoServer ssgPage"
    by (simp add: isSSG_def ssgPage_def)
  have pre: "stateAfterPreamble demoServer ?ctx (ssgPage, Map.empty) ?s = ?s"
    by (simp add: render_defs demo_defs demoServer_simps localeOf_def)
  note claim = C10_method_not_allowed [where srv = demoServer and R = ?R and ctx = ?ctx
      and c = ssgPage and ?q0.0 = Map.empty and s = ?s,
      OF not404 not500 notError notGet notHead static]
  from claim have "renderToResponseWithComponents demoServer ?R ?ctx (ssgPage, Map.empty) ?s =
          (case renderError demoServer ?R None (ctx_pathname ?ctx) Map.empty True
                  (setHeader ''Allow'' [''GET'', ''HEAD''] (setStatusCode (Some 405) ?s)) of
             (Inl e, s') \<Rightarrow> (Inl e, s')
           | (Inr u, s') \<Rightarrow> (Inr None, s'))"
    unfolding pre by blast
  then show ?thesis
    by (simp add: dispatch_defs render_defs generator_defs pipeline_defs demo_defs
        demoServer_simps Let_def)
qed

section \<open>No fallback\<close>

lemma generatorPath_PathNoFallback:
  assumes production: "\<not> dev srv"
    and dynamic: "isDynamicRoute srv (pathname sc)"
    and declared: "(if hasStaticPaths (comps sc) then getStaticPaths srv (pathname sc)
                    else Inr (None, FallbackFalse)) = Inr (staticPaths, FallbackFalse)"
    and miss: "\<not> hadCache" "\<not> hasResolved" "\<not> sent (res s)"
    and key: "truthy (ssgCacheKey sc)"
    and notPreview: "\<not> isPreviewMode sc"
    and notMinimal: "\<not> minimalMode srv"
    and notSkipped: "\<not> (isManualRevalidate sc \<and> revalidateOnlyGenerated sc)"
  shows "generatorPath srv sc hasResolved hadCache s = PathNoFallback"
  using assms
  by (auto simp: generatorPath_def fallbackMode_bot_def fallbackMode_manual_def
      fallbackBlock_def)

lemma renderPageComponent_NoFallbackError:
  assumes "findPageComponents srv
             (case getOriginalAppPaths srv (ctx_pathname ctx) of
                None \<Rightarrow> Some (ctx_pathname ctx)
              | Some [] \<Rightarrow> None
              | Some (a # as) \<Rightarrow> Some a)
             (ctx_query ctx)
             (case params (ctx_renderOpts ctx) of None \<Rightarrow> [] | Some ps \<Rightarrow> ps) =
           Inr (Some found)"
    and "renderToResponseWithComponents srv R ctx found s = (Inl NoFallbackError, s1)"
    and "\<not> bubbleNoFallback"
  shows "renderPageComponent srv R ctx bubbleNoFallback s = (Inr None, s1)"
  using assms by (simp add: renderPageComponent_def Let_def)

lemma renderToResponse_exhausted:
  assumes "tryCandidates srv R
             (ctx0\<lparr>ctx_query := (ctx_query ctx0)(''_nextBubbleNoFallback'' := None)\<rparr>)
             (truthy (ctx_query ctx0 ''_nextBubbleNoFallback'')) s0 = (Inr None, s2)"
    and "\<not> (catchAllMiddleware srv \<and> truthy (headers (req s2) ''x-nextjs-data'') \<and>
            (statusCode (res s2) = None \<or> statusCode (res s2) = Some 0 \<or>
             statusCode (res s2) = Some 200 \<or> statusCode (res s2) = Some 404))"
  shows "renderToResponse srv R ctx0 s0 =
           renderErrorToResponse srv R
             (ctx0\<lparr>ctx_query := (ctx_query ctx0)(''_nextBubbleNoFallback'' := None)\<rparr>)
             None (setStatusCode (Some 404) s2)"
  using assms by (auto simp: renderToResponse_def Let_def)

text \<open>
  Claim C3, amended. In production, on a miss for a dynamic page whose fallback is
  \<open>false\<close>, with a non-empty cache key, no response begun, no preview, a server that is
  not in minimal mode and a request that is not a manual revalidation under "revalidate
  only generated", the response generator raises \<open>NoFallbackError\<close> and changes nothing.
  \<open>renderPageComponent\<close> turns that error into "no result" unless the request asks to
  bubble it. When every candidate is exhausted, and the request is not a data request
  answered for a catch-all middleware, the dispatcher sets the status 404 and renders the
  error page.
\<close>

theorem C3_no_fallback:
  "(\<not> dev srv \<and> isDynamicRoute srv (pathname sc) \<and>
    (if hasStaticPaths (comps sc) then getStaticPaths srv (pathname sc)
     else Inr (None, FallbackFalse)) = Inr (staticPaths, FallbackFalse) \<and>
    \<not> hadCache \<and> \<not> hasResolved \<and> \<not> sent (res s) \<and> truthy (ssgCacheKey sc) \<and>
    \<not> isPreviewMode sc \<and> \<not> minimalMode srv \<and>
    \<not> (isManualRevalidate sc \<and> revalidateOnlyGenerated sc)
    \<longrightarrow> responseGenerator srv R sc hasResolved hadCache s = (Inl NoFallbackError, s))
   \<and> (findPageComponents srv
         (case getOriginalAppPaths srv (ctx_pathname ctx) of
            None \<Rightarrow> Some (ctx_pathname ctx)
          | Some [] \<Rightarrow> None
          | Some (a # as) \<Rightarrow> Some a)
         (ctx_query ctx)
         (case params (ctx_renderOpts ctx) of None \<Rightarrow> [] | Some ps \<Rightarrow> ps) =
        Inr (Some found) \<and>
       renderToResponseWithComponents srv R ctx found s = (Inl NoFallbackError, s') \<and>
       \<not> bubbleNoFallback
       \<longrightarrow> renderPageComponent srv R ctx bubbleNoFallback s = (Inr None, s'))
   \<and> (tryCandidates srv R
         (ctx'\<lparr>ctx_query := (ctx_query ctx')(''_nextBubbleNoFallback'' := None)\<rparr>)
         (truthy (ctx_query ctx' ''_nextBubbleNoFallback'')) t = (Inr None, t') \<and>
       \<not> (catchAllMiddleware srv \<and> truthy (headers (req t') ''x-nextjs-data'') \<and>
          (statusCode (res t') = None \<or> statusCode (res t') = Some 0 \<or>
           statusCode (res t') = Some 200 \<or> statusCode (res t') = Some 404))
       \<longrightarrow> renderToResponse srv R ctx' t =
             renderErrorToResponse srv R
               (ctx'\<lparr>ctx_query := (ctx_query ctx')(''_nextBubbleNoFallback'' := None)\<rparr>)
               None (setStatusCode (Some 404) t') \<and>
           statusCode (res (setStatusCode (Some 404) t')) = Some 404)"
proof (intro conjI impI)
  assume a: "\<not> dev srv \<and> isDynamicRoute srv (pathname sc) \<and>
    (if hasStaticPaths (comps sc) then getStaticPaths srv (pathname sc)
     else Inr (None, FallbackFalse)) = Inr (staticPaths, FallbackFalse) \<and>
    \<not> hadCache \<and> \<not> hasResolved \<and> \<not> sent (res s) \<and> truthy (ssgCacheKey sc) \<and>
    \<not> isPreviewMode sc \<and> \<not> minimalMode srv \<and>
    \<not> (isManualRevalidate sc \<and> revalidateOnlyGenerated sc)"
  then have "generatorPath srv sc hasResolved hadCache s = PathNoFallback"
    by (intro generatorPath_PathNoFallback [where staticPaths = staticPaths]) simp_all
  then show "responseGenerator srv R sc hasResolved hadCache s = (Inl NoFallbackError, s)"
    by (rule responseGenerator_PathNoFallback)
next
  assume "findPageComponents srv
         (case getOriginalAppPaths srv (ctx_pathname ctx) of
            None \<Rightarrow> Some (ctx_pathname ctx)
          | Some [] \<Rightarrow> None
          | Some (a # as) \<Rightarrow> Some a)
         (ctx_query ctx)
         (case params (ctx_renderOpts ctx) of None \<Rightarrow> [] | Some ps \<Rightarrow> ps) =
        Inr (Some found) \<and>
       renderToResponseWithComponents srv R ctx found s = (Inl NoFallbackError, s') \<and>
       \<not> bubbleNoFallback"
  then show "renderPageComponent srv R ctx bubbleNoFallback s = (Inr None, s')"
    by (intro renderPageComponent_NoFallbackError [where found = found]) simp_all
next
  assume b: "tryCandidates srv R
         (ctx'\<lparr>ctx_query := (ctx_query ctx')(''_nextBubbleNoFallback'' := None)\<rparr>)
         (truthy (ctx_query ctx' ''_nextBubbleNoFallback'')) t = (Inr None, t') \<and>
       \<not> (catchAllMiddleware srv \<and> truthy (headers (req t') ''x-nextjs-data'') \<and>
          (statusCode (res t') = None \<or> statusCode (res t') = Some 0 \<or>
           statusCode (res t') = Some 200 \<or> statusCode (res t') = Some 404))"
  show "renderToResponse srv R ctx' t =
             renderErrorToResponse srv R
               (ctx'\<lparr>ctx_query := (ctx_query ctx')(''_nextBubbleNoFallback'' := None)\<rparr>)
               None (setStatusCode (Some 404) t')"
    by (rule renderToResponse_exhausted) (use b in blast)+
next
  show "statusCode (res (setStatusCode (Some 404) t')) = Some 404"
    by (simp add: setStatusCode_def)
qed

lemma demo_blog_page:
  "renderToResponseWithComponents demoServer noReenter
     \<lparr>ctx_pathname = ''/blog/[slug]'', ctx_query = Map.empty,
      ctx_renderOpts = demoOpts\<lparr>params := Some [(''slug'', ''hello'')]\<rparr>\<rparr>
     (ssgPage, Map.empty) (demoState (demoRequest ''/blog/hello'' [])) =
   (Inl NoFallbackError, demoState (demoRequest ''/blog/hello'' []))"
  by (simp add: render_defs generator_defs demo_defs demoServer_simps Let_def)

lemma demo_candidates:
  "tryCandidates demoServer noReenter
     \<lparr>ctx_pathname = ''/blog/hello'', ctx_query = Map.empty, ctx_renderOpts = demoOpts\<rparr>
     False (demoState (demoRequest ''/blog/hello'' [])) =
   (Inr None, demoState (demoRequest ''/blog/hello'' []))"
  using demo_blog_page
  by (simp add: tryCandidates_def renderPageComponent_def getOriginalAppPaths_def
      demoServer_simps demoOpts_def)

lemma demo_error_page:
  "fst (renderErrorToResponse demoServer noReenter
          \<lparr>ctx_pathname = ''/blog/hello'', ctx_query = Map.empty, ctx_renderOpts = demoOpts\<rparr>
          None (setStatusCode (Some 404) (demoState (demoRequest ''/blog/hello'' [])))) =
     Inr (Some \<lparr>payload_type = html, payload_body = fromStatic ''<p>page</p>'',
                revalidateOptions =
                  Some \<lparr>opt_private = False, opt_stateful = True,
                        opt_revalidate = Seconds 1\<rparr>\<rparr>)
   \<and> statusCode (res (snd (renderErrorToResponse demoServer noReenter
          \<lparr>ctx_pathname = ''/blog/hello'', ctx_query = Map.empty, ctx_renderOpts = demoOpts\<rparr>
          None (setStatusCode (Some 404) (demoState (demoRequest ''/blog/hello'' [])))))) =
     Some 404"
  by (simp add: dispatch_defs render_defs generator_defs pipeline_defs demo_defs
      demoServer_simps Let_def)

theorem C3_no_fallback_witness:
  "responseGenerator demoServer noReenter (demoScope ''/blog/[slug]'' ''/blog/hello'')
     False False (demoState (demoRequest ''/blog/hello'' [])) =
     (Inl NoFallbackError, demoState (demoRequest ''/blog/hello'' []))
   \<and> renderPageComponent demoServer noReenter
       \<lparr>ctx_pathname = ''/blog/[slug]'', ctx_query = Map.empty,
        ctx_renderOpts = demoOpts\<lparr>params := Some [(''slug'', ''hello'')]\<rparr>\<rparr>
       False (demoState (demoRequest ''/blog/hello'' [])) =
     (Inr None, demoState (demoRequest ''/blog/hello'' []))
   \<and> fst (renderToResponse demoServer noReenter
            \<lparr>ctx_pathname = ''/blog/hello'', ctx_query = Map.empty, ctx_renderOpts = demoOpts\<rparr>
            (demoState (demoRequest ''/blog/hello'' []))) =
     Inr (Some \<lparr>payload_type = html, payload_body = fromStatic ''<p>page</p>'',
                revalidateOptions =
                  Some \<lparr>opt_private = False, opt_stateful = True,
                        opt_revalidate = Seconds 1\<rparr>\<rparr>)
   \<and> statusCode (res (snd (renderToResponse demoServer noReenter
            \<lparr>ctx_pathname = ''/blog/hello'', ctx_query = Map.empty, ctx_renderOpts = demoOpts\<rparr>
            (demoState (demoRequest ''/blog/hello'' []))))) = Some 404"
proof -
  let ?s = "demoState (demoRequest ''/blog/hello'' [])"
  let ?sc = "demoScope ''/blog/[slug]'' ''/blog/hello''"
  let ?ctx = "\<lparr>ctx_pathname = ''/blog/[slug]'', ctx_query = Map.empty,
               ctx_renderOpts = demoOpts\<lparr>params := Some [(''slug'', ''hello'')]\<rparr>\<rparr>"
  let ?root = "\<lparr>ctx_pathname = ''/blog/hello'', ctx_query = Map.empty,
                ctx_renderOpts = demoOpts\<rparr>"
  note claim = C3_no_fallback [where srv = demoServer and R = noReenter and sc = ?sc
      and hasResolved = False and hadCache = False and s = ?s and staticPaths = None
      and ctx = ?ctx and found = "(ssgPage, Map.empty)" and s' = ?s
      and bubbleNoFallback = False and ctx' = ?root and t = ?s and t' = ?s]
  have miss: "\<not> dev demoServer \<and> isDynamicRoute demoServer (pathname ?sc) \<and>
    (if hasStaticPaths (comps ?sc) then getStaticPaths demoServer (pathname ?sc)
     else Inr (None, FallbackFalse)) = Inr (None, FallbackFalse) \<and>
    \<not> False \<and> \<not> False \<and> \<not> sent (res ?s) \<and> truthy (ssgCacheKey ?sc) \<and>
    \<not> isPreviewMode ?sc \<and> \<not> minimalMode demoServer \<and>
    \<not> (isManualRevalidate ?sc \<and> revalidateOnlyGenerated ?sc)"
    by (simp add: demo_defs demoServer_simps hasStaticPaths_def getStaticPaths_def)
  have found: "findPageComponents demoServer
         (case getOriginalAppPaths demoServer (ctx_pathname ?ctx) of
            None \<Rightarrow> Some (ctx_pathname ?ctx)
          | Some [] \<Rightarrow> None
          | Some (a # as) \<Rightarrow> Some a)
         (ctx_query ?ctx)
         (case params (ctx_renderOpts ?ctx) of None \<Rightarrow> [] | Some ps \<Rightarrow> ps) =
        Inr (Some (ssgPage, Map.empty))"
    by (simp add: getOriginalAppPaths_def demoServer_simps)
  have exhausted: "tryCandidates demoServer noReenter
         (?root\<lparr>ctx_query := (ctx_query ?root)(''_nextBubbleNoFallback'' := None)\<rparr>)
         (truthy (ctx_query ?root ''_nextBubbleNoFallback'')) ?s = (Inr None, ?s)"
    using demo_candidates by simp
  have noMiddleware: "\<not> (catchAllMiddleware demoServer \<and>
          truthy (headers (req ?s) ''x-nextjs-data'') \<and>
          (statusCode (res ?s) = None \<or> statusCode (res ?s) = Some 0 \<or>
           statusCode (res ?s) = Some 200 \<or> statusCode (res ?s) = Some 404))"
    by (simp add: demoServer_simps)
  have one: "responseGenerator demoServer noReenter ?sc False False ?s = (Inl NoFallbackError, ?s)"
    using claim miss by blast
  have two: "renderPageComponent demoServer noReenter ?ctx False ?s = (Inr None, ?s)"
    using claim found demo_blog_page by blast
  have three: "renderToResponse demoServer noReenter ?root ?s =
                 renderErrorToResponse demoServer noReenter
                   (?root\<lparr>ctx_query := (ctx_query ?root)(''_nextBubbleNoFallback'' := None)\<rparr>)
                   None (setStatusCode (Some 404) ?s)"
    using claim exhausted noMiddleware by blast
  have same: "?root\<lparr>ctx_query := (ctx_query ?root)(''_nextBubbleNoFallback'' := None)\<rparr> = ?root"
    by simp
  from one two three demo_error_page show ?thesis
    unfolding same by simp
qed

text \<open>
  Claim C3 as stated fails in minimal mode: on the same miss the response generator renders
  the page and returns its entry instead of raising \<open>NoFallbackError\<close>.
\<close>

theorem C3_counterexample:
  "\<not> dev (demoServer\<lparr>minimalMode := True\<rparr>)
   \<and> isDynamicRoute (demoServer\<lparr>minimalMode := True\<rparr>) ''/blog/[slug]''
   \<and> getStaticPaths (demoServer\<lparr>minimalMode := True\<rparr>) ''/blog/[slug]'' =
       Inr (None, FallbackFalse)
   \<and> fst (responseGenerator (demoServer\<lparr>minimalMode := True\<rparr>) noReenter
            (demoScope ''/blog/[slug]'' ''/blog/hello'') False False
            (demoState (demoRequest ''/blog/hello'' []))) =
       Inr (Some \<lparr>revalidate = Some (Seconds 1),
                  entry_value = Some (PAGE (fromStatic ''<p>page</p>'') (JObj [])),
                  isStale = False, isMiss = False\<rparr>)"
  by (simp add: generator_defs demo_defs demoServer_simps Let_def)

end
